theory Spec2Isabelle
  imports Main "HOL-Library.Char_ord" "HOL-Library.List_Lexorder" "HOL-Library.Multiset"
begin

section \<open>Strings and the Python built-ins the analyzer uses\<close>

text \<open>
  Python strings are modelled as \<open>string\<close>, one \<open>char\<close> per code point, for text whose
  code points are below 256. Python orders strings lexicographically by code point,
  which is the order \<open>HOL-Library.List_Lexorder\<close> puts on \<open>char list\<close> over
  \<open>HOL-Library.Char_ord\<close>.
\<close>

text \<open>\<^verbatim>\<open>sep.join(parts)\<close>\<close>

fun join :: "string \<Rightarrow> string list \<Rightarrow> string" where
  "join sep [] = []"
| "join sep [x] = x"
| "join sep (x # y # ys) = x @ sep @ join sep (y # ys)"

text \<open>\<^verbatim>\<open>s.split(c)\<close> for a one-character separator: never empty, one piece more than
  there are separators.\<close>

fun split_chr :: "char \<Rightarrow> string \<Rightarrow> string list" where
  "split_chr c [] = [[]]"
| "split_chr c (x # xs) =
     (if x = c then [] # split_chr c xs
      else (case split_chr c xs of
              [] \<Rightarrow> [[x]]
            | p # ps \<Rightarrow> (x # p) # ps))"

text \<open>\<^verbatim>\<open>str(n)\<close> for a non-negative integer: its decimal digits.\<close>

fun str_nat :: "nat \<Rightarrow> string" where
  "str_nat n =
     (if n < 10 then [char_of (48 + n)]
      else str_nat (n div 10) @ [char_of (48 + n mod 10)])"

declare str_nat.simps [simp del]

section \<open>Documents and chunks (repository\_manager.py, chunker.py)\<close>

text \<open>\<^verbatim>\<open>CodeFile\<close>: the attribute \<^verbatim>\<open>size\<close> is \<^verbatim>\<open>len(content)\<close>, fixed at construction.\<close>

record CodeFile =
  path :: string
  relative_path :: string
  content :: string
  extension :: string

definition file_size :: "CodeFile \<Rightarrow> nat" where
  "file_size f = length (content f)"

text \<open>\<^verbatim>\<open>CodeChunk\<close> has exactly these three attributes.\<close>

record CodeChunk =
  files :: "CodeFile list"
  chunk_id :: nat
  token_count :: nat

text \<open>The five text parts \<^verbatim>\<open>CodeChunk.to_text\<close> appends for one file.\<close>

definition file_text_parts :: "CodeFile \<Rightarrow> string list" where
  "file_text_parts f =
     [''=== File: '' @ relative_path f @ '' ==='',
      ''Extension: '' @ extension f,
      ''Lines: '' @ str_nat (length (split_chr (CHR 10) (content f))),
      [CHR 10] @ ''Content:'' @ [CHR 10] @ content f @ [CHR 10],
      replicate 80 (CHR ''='')]"

definition to_text :: "CodeFile list \<Rightarrow> string" where
  "to_text fs = join [CHR 10] (concat (map file_text_parts fs))"

definition get_file_list :: "CodeChunk \<Rightarrow> string list" where
  "get_file_list c = map relative_path (files c)"

section \<open>CodeChunker.create\_chunks\<close>

text \<open>
  The tokenizer (\<^verbatim>\<open>tiktoken\<close>) is outside the repository: \<open>count_tokens\<close> is a parameter,
  a total function from text to a length. \<open>max_tokens\<close> is the configured integer
  \<^verbatim>\<open>config.max_tokens_per_chunk\<close>. The local variables of the loop are the fields of
  \<open>chunker_state\<close>; console output is not modelled.
\<close>

record chunker_state =
  st_chunks :: "CodeChunk list"
  st_current_chunk_files :: "CodeFile list"
  st_current_tokens :: nat
  st_chunk_id :: nat

definition init_state :: chunker_state where
  "init_state =
     \<lparr>st_chunks = [], st_current_chunk_files = [], st_current_tokens = 0, st_chunk_id = 0\<rparr>"

text \<open>The first \<^verbatim>\<open>if\<close>/\<^verbatim>\<open>else\<close> of the loop body.\<close>

definition finalize_or_add ::
  "(string \<Rightarrow> nat) \<Rightarrow> int \<Rightarrow> chunker_state \<Rightarrow> CodeFile \<Rightarrow> chunker_state" where
  "finalize_or_add count_tokens max_tokens s file =
     (let test_tokens = count_tokens (to_text (st_current_chunk_files s @ [file]))
      in if int test_tokens > max_tokens \<and> st_current_chunk_files s \<noteq> [] then
           s\<lparr>st_chunks := st_chunks s @
                [\<lparr>files = st_current_chunk_files s, chunk_id = st_chunk_id s,
                  token_count = st_current_tokens s\<rparr>],
             st_chunk_id := st_chunk_id s + 1,
             st_current_chunk_files := [file],
             st_current_tokens := count_tokens (to_text [file])\<rparr>
         else
           s\<lparr>st_current_chunk_files := st_current_chunk_files s @ [file],
             st_current_tokens := test_tokens\<rparr>)"

text \<open>The second \<^verbatim>\<open>if\<close> of the loop body. It tests \<^verbatim>\<open>test_tokens\<close>, the count taken
  before the first \<^verbatim>\<open>if\<close>, and \<^verbatim>\<open>current_chunk_files[:-1]\<close> of the updated list.\<close>

definition seal_single ::
  "int \<Rightarrow> nat \<Rightarrow> chunker_state \<Rightarrow> CodeFile \<Rightarrow> chunker_state" where
  "seal_single max_tokens test_tokens s file =
     (if int test_tokens > max_tokens \<and> butlast (st_current_chunk_files s) = [] then
        s\<lparr>st_chunks := st_chunks s @
             [\<lparr>files = [file], chunk_id = st_chunk_id s, token_count = test_tokens\<rparr>],
          st_chunk_id := st_chunk_id s + 1,
          st_current_chunk_files := [],
          st_current_tokens := 0\<rparr>
      else s)"

definition chunk_step ::
  "(string \<Rightarrow> nat) \<Rightarrow> int \<Rightarrow> chunker_state \<Rightarrow> CodeFile \<Rightarrow> chunker_state" where
  "chunk_step count_tokens max_tokens s file =
     (let test_tokens = count_tokens (to_text (st_current_chunk_files s @ [file]))
      in seal_single max_tokens test_tokens
           (finalize_or_add count_tokens max_tokens s file) file)"

definition final_chunks :: "chunker_state \<Rightarrow> CodeChunk list" where
  "final_chunks s =
     (if st_current_chunk_files s \<noteq> [] then
        st_chunks s @
          [\<lparr>files = st_current_chunk_files s, chunk_id = st_chunk_id s,
            token_count = st_current_tokens s\<rparr>]
      else st_chunks s)"

definition create_chunks ::
  "(string \<Rightarrow> nat) \<Rightarrow> int \<Rightarrow> CodeFile list \<Rightarrow> CodeChunk list" where
  "create_chunks count_tokens max_tokens code_files =
     final_chunks
       (foldl (chunk_step count_tokens max_tokens) init_state
          (sort_key relative_path code_files))"

subsection \<open>Loop invariants of create\_chunks\<close>

text \<open>The files the loop has placed so far: those of the sealed chunks, then the pending ones.\<close>

definition covered :: "chunker_state \<Rightarrow> CodeFile list" where
  "covered s = concat (map files (st_chunks s)) @ st_current_chunk_files s"

text \<open>Sealed chunks carry the sequence numbers 0, 1, ... below the counter.\<close>

definition ids_ok :: "chunker_state \<Rightarrow> bool" where
  "ids_ok s \<longleftrightarrow> map chunk_id (st_chunks s) = [0..<st_chunk_id s]"

text \<open>A chunk is within budget, or it holds one file and its recorded count is above budget.\<close>

definition budget_ok :: "(string \<Rightarrow> nat) \<Rightarrow> int \<Rightarrow> CodeChunk \<Rightarrow> bool" where
  "budget_ok count_tokens max_tokens c \<longleftrightarrow>
     int (count_tokens (to_text (files c))) \<le> max_tokens \<or>
     (length (files c) = 1 \<and> int (token_count c) > max_tokens)"

text \<open>A non-empty pending list is within budget and \<^verbatim>\<open>current_tokens\<close> is its count.\<close>

definition pending_ok :: "(string \<Rightarrow> nat) \<Rightarrow> int \<Rightarrow> chunker_state \<Rightarrow> bool" where
  "pending_ok count_tokens max_tokens s \<longleftrightarrow>
     (st_current_chunk_files s \<noteq> [] \<longrightarrow>
        st_current_tokens s = count_tokens (to_text (st_current_chunk_files s)) \<and>
        int (st_current_tokens s) \<le> max_tokens) \<and>
     (\<forall>c \<in> set (st_chunks s). budget_ok count_tokens max_tokens c)"

subsection \<open>Example documents\<close>

text \<open>With the character count as tokenizer, \<open>doc_a\<close> alone costs 229, \<open>doc_b\<close> and
  \<open>doc_c\<close> 129 each, \<open>doc_a\<close> with \<open>doc_b\<close> 359 and \<open>doc_b\<close> with \<open>doc_c\<close> 259.\<close>

definition doc_a :: CodeFile where
  "doc_a = \<lparr>path = ''/repo/a'', relative_path = ''a'',
            content = replicate 100 (CHR ''x''), extension = ''''\<rparr>"

definition doc_b :: CodeFile where
  "doc_b = \<lparr>path = ''/repo/b'', relative_path = ''b'', content = '''', extension = ''''\<rparr>"

definition doc_c :: CodeFile where
  "doc_c = \<lparr>path = ''/repo/c'', relative_path = ''c'', content = '''', extension = ''''\<rparr>"

section \<open>CodeChunker.create\_project\_overview\_chunk\<close>

text \<open>\<^verbatim>\<open>s.startswith(p)\<close> and \<^verbatim>\<open>sub in s\<close> on strings.\<close>

fun startswith :: "string \<Rightarrow> string \<Rightarrow> bool" where
  "startswith s [] = True"
| "startswith [] (p # ps) = False"
| "startswith (x # xs) (p # ps) = (x = p \<and> startswith xs ps)"

fun str_contains :: "string \<Rightarrow> string \<Rightarrow> bool" where
  "str_contains sub [] = (sub = [])"
| "str_contains sub (x # xs) = (startswith (x # xs) sub \<or> str_contains sub xs)"

text \<open>\<^verbatim>\<open>str.lower\<close> on code points below 256: the ASCII capitals and the Latin-1 capitals
  (192 to 222 without the multiplication sign 215) move up by 32.\<close>

definition lower_char :: "char \<Rightarrow> char" where
  "lower_char c =
     (let n = (of_char c :: nat)
      in if (65 \<le> n \<and> n \<le> 90) \<or> (192 \<le> n \<and> n \<le> 222 \<and> n \<noteq> 215)
         then char_of (n + 32) else c)"

definition lower :: "string \<Rightarrow> string" where
  "lower s = map lower_char s"

text \<open>\<^verbatim>\<open>"readme" in file.relative_path.lower()\<close>\<close>

definition is_readme :: "CodeFile \<Rightarrow> bool" where
  "is_readme file = str_contains ''readme'' (lower (relative_path file))"

text \<open>
  \<^verbatim>\<open>files_by_ext\<close> is a dictionary from extension to a list of paths; it is modelled as an
  association list in insertion order with each key once. \<open>dict_append k v\<close> is
  \<^verbatim>\<open>if k not in d: d[k] = []\<close> followed by \<^verbatim>\<open>d[k].append(v)\<close>.
\<close>

fun dict_append ::
  "string \<Rightarrow> string \<Rightarrow> (string \<times> string list) list \<Rightarrow> (string \<times> string list) list" where
  "dict_append k v [] = [(k, [v])]"
| "dict_append k v ((k', vs) # d) =
     (if k = k' then (k', vs @ [v]) # d else (k', vs) # dict_append k v d)"

text \<open>\<^verbatim>\<open>file.extension or "no_extension"\<close>\<close>

definition ext_or_default :: "string \<Rightarrow> string" where
  "ext_or_default e = (if e \<noteq> [] then e else ''no_extension'')"

record overview_state =
  files_by_ext :: "(string \<times> string list) list"
  readme_content :: "string option"

definition overview_step :: "overview_state \<Rightarrow> CodeFile \<Rightarrow> overview_state" where
  "overview_step s file =
     (let ext = ext_or_default (extension file);
          s1 = s\<lparr>files_by_ext := dict_append ext (relative_path file) (files_by_ext s)\<rparr>
      in if is_readme file then s1\<lparr>readme_content := Some (content file)\<rparr> else s1)"

text \<open>The lines added for one entry of \<^verbatim>\<open>sorted(files_by_ext.items())\<close>.\<close>

definition ext_section :: "string \<times> string list \<Rightarrow> string list" where
  "ext_section item =
     (case item of (ext, fs) \<Rightarrow>
        [[CHR 10] @ ext @ '' files ('' @ str_nat (length fs) @ ''):'']
        @ map (\<lambda>file. ''  - '' @ file) (take 50 (sort fs))
        @ (if length fs > 50
           then [''  ... and '' @ str_nat (length fs - 50) @ '' more'']
           else []))"

text \<open>\<^verbatim>\<open>if readme_content:\<close> is false for \<^verbatim>\<open>None\<close> and for the empty string.\<close>

definition readme_parts :: "string option \<Rightarrow> string list" where
  "readme_parts r =
     (case r of
        None \<Rightarrow> []
      | Some c \<Rightarrow>
          if c \<noteq> [] then [[CHR 10, CHR 10] @ ''=== README CONTENT ==='' @ [CHR 10], c]
          else [])"

text \<open>The keys of the dictionary are distinct, so sorting its items (pairs, compared
  component by component in Python) is sorting by key.\<close>

definition create_project_overview_chunk :: "CodeFile list \<Rightarrow> string" where
  "create_project_overview_chunk code_files =
     (let s = foldl overview_step \<lparr>files_by_ext = [], readme_content = None\<rparr> code_files;
          overview_parts =
            [''=== PROJECT STRUCTURE ==='' @ [CHR 10]]
            @ concat (map ext_section (sort_key fst (files_by_ext s)))
            @ readme_parts (readme_content s)
      in join [CHR 10] overview_parts)"

subsection \<open>The structure listing as a function of extensions and paths only\<close>

definition group_files :: "(string \<times> string) list \<Rightarrow> (string \<times> string list) list" where
  "group_files eps = foldl (\<lambda>d ep. dict_append (ext_or_default (fst ep)) (snd ep) d) [] eps"

definition structure_parts :: "(string \<times> string) list \<Rightarrow> string list" where
  "structure_parts eps =
     [''=== PROJECT STRUCTURE ==='' @ [CHR 10]]
     @ concat (map ext_section (sort_key fst (group_files eps)))"

definition doc_readme1 :: CodeFile where
  "doc_readme1 = \<lparr>path = ''/repo/README.md'', relative_path = ''README.md'',
                  content = ''first'', extension = ''.md''\<rparr>"

definition doc_readme2 :: CodeFile where
  "doc_readme2 = \<lparr>path = ''/repo/docs/Readme.txt'', relative_path = ''docs/Readme.txt'',
                  content = ''second'', extension = ''.txt''\<rparr>"

section \<open>CodeAnalyzer.analyze\_complexity (analyzer.py)\<close>

text \<open>
  The metrics library (\<^verbatim>\<open>radon\<close>) is outside the repository: \<open>cc_visit\<close> is a parameter that
  maps a file's text to its scored blocks, or to \<open>None\<close> when it raises. Python floats are
  the type parameter \<open>'f\<close>; true division of two integers and the built-in
  \<^verbatim>\<open>round(x, ndigits)\<close> are the parameters \<open>truediv\<close> and \<open>round_nd\<close>.
\<close>

record cc_item =
  cc_name :: string
  cc_complexity :: int
  cc_letter :: string
  cc_lineno :: int

datatype 'f py_number = PyInt int | PyFloat 'f

definition classify_complexity :: "int \<Rightarrow> string" where
  "classify_complexity score =
     (if score \<le> 5 then ''low'' else if score \<le> 10 then ''medium'' else ''high'')"

text \<open>One entry of \<^verbatim>\<open>file_complexity["functions"]\<close>.\<close>

record function_entry =
  fe_name :: string
  fe_complexity :: int
  fe_type :: string
  fe_line :: int
  fe_complexity_level :: string

text \<open>One entry of \<^verbatim>\<open>complexity_results["files"]\<close>.\<close>

record file_complexity =
  fc_path :: string
  fc_functions :: "function_entry list"
  fc_max_complexity :: int
  fc_complexity_level :: string

text \<open>One entry of \<^verbatim>\<open>summary["high_complexity_files"]\<close>.\<close>

record high_entry =
  he_path :: string
  he_max_complexity :: int

record 'f complexity_summary =
  total_files :: nat
  analyzed_files :: nat
  high_complexity_files :: "high_entry list"
  average_complexity :: "'f py_number"

record 'f complexity_results =
  cr_files :: "file_complexity list"
  cr_summary :: "'f complexity_summary"

definition function_entry_of :: "cc_item \<Rightarrow> function_entry" where
  "function_entry_of item =
     \<lparr>fe_name = cc_name item, fe_complexity = cc_complexity item, fe_type = cc_letter item,
      fe_line = cc_lineno item, fe_complexity_level = classify_complexity (cc_complexity item)\<rparr>"

text \<open>The inner loop: \<^verbatim>\<open>max_complexity\<close> starts at 0.\<close>

definition file_complexity_of :: "CodeFile \<Rightarrow> cc_item list \<Rightarrow> file_complexity" where
  "file_complexity_of file cc_results =
     (let max_complexity = foldl (\<lambda>m item. max m (cc_complexity item)) 0 cc_results
      in \<lparr>fc_path = relative_path file,
          fc_functions = map function_entry_of cc_results,
          fc_max_complexity = max_complexity,
          fc_complexity_level = classify_complexity max_complexity\<rparr>)"

text \<open>The variables the outer loop updates.\<close>

record complexity_state =
  cs_files :: "file_complexity list"
  cs_high_complexity_files :: "high_entry list"
  cs_total_complexity :: int
  cs_analyzed_count :: nat

definition complexity_step ::
  "(string \<Rightarrow> cc_item list option) \<Rightarrow> complexity_state \<Rightarrow> CodeFile \<Rightarrow> complexity_state" where
  "complexity_step cc_visit s file =
     (if extension file \<notin> set [''.py'', ''.java''] then s
      else case cc_visit (content file) of
             None \<Rightarrow> s
           | Some cc_results \<Rightarrow>
               (let fc = file_complexity_of file cc_results;
                    max_complexity = fc_max_complexity fc
                in s\<lparr>cs_files := cs_files s @ [fc],
                     cs_high_complexity_files :=
                       (if max_complexity > 10
                        then cs_high_complexity_files s @
                               [\<lparr>he_path = relative_path file, he_max_complexity = max_complexity\<rparr>]
                        else cs_high_complexity_files s),
                     cs_total_complexity := cs_total_complexity s + max_complexity,
                     cs_analyzed_count := cs_analyzed_count s + 1\<rparr>))"

definition complexity_init :: complexity_state where
  "complexity_init =
     \<lparr>cs_files = [], cs_high_complexity_files = [],
      cs_total_complexity = 0, cs_analyzed_count = 0\<rparr>"

definition analyze_complexity ::
  "(string \<Rightarrow> cc_item list option) \<Rightarrow> (int \<Rightarrow> int \<Rightarrow> 'f) \<Rightarrow> ('f \<Rightarrow> int \<Rightarrow> 'f)
     \<Rightarrow> CodeFile list \<Rightarrow> 'f complexity_results" where
  "analyze_complexity cc_visit truediv round_nd code_files =
     (let s = foldl (complexity_step cc_visit) complexity_init code_files
      in \<lparr>cr_files = cs_files s,
          cr_summary =
            \<lparr>total_files = length code_files,
             analyzed_files = cs_analyzed_count s,
             high_complexity_files = cs_high_complexity_files s,
             average_complexity =
               (if cs_analyzed_count s > 0
                then PyFloat (round_nd (truediv (cs_total_complexity s)
                                          (int (cs_analyzed_count s))) 2)
                else PyInt 0)\<rparr>\<rparr>)"

section \<open>OutputFormatter.\_format\_complexity\_analysis (output\_formatter.py)\<close>

record complex_function =
  cf_name :: string
  cf_complexity :: int
  cf_line :: int

record detailed_metric =
  dm_file :: string
  dm_max_complexity :: int
  dm_complexity_level :: string
  dm_complex_functions :: "complex_function list"

record 'f complexity_report =
  rep_total_files_analyzed :: nat
  rep_average_complexity :: "'f py_number"
  rep_high_complexity_count :: nat
  rep_high_complexity_files :: "high_entry list"
  rep_detailed_metrics :: "detailed_metric list"

text \<open>The result for an empty \<^verbatim>\<open>complexity_data\<close> has the summary text
  "No complexity analysis available" and an empty file list.\<close>

datatype 'f complexity_section =
  NoComplexityAnalysis | ComplexityAnalysis (the_report: "'f complexity_report")

definition detailed_metric_of :: "file_complexity \<Rightarrow> detailed_metric" where
  "detailed_metric_of f =
     \<lparr>dm_file = fc_path f,
      dm_max_complexity = fc_max_complexity f,
      dm_complexity_level = fc_complexity_level f,
      dm_complex_functions =
        take 10 (map (\<lambda>func. \<lparr>cf_name = fe_name func, cf_complexity = fe_complexity func,
                              cf_line = fe_line func\<rparr>)
                   (filter (\<lambda>func. fe_complexity func > 5) (fc_functions f)))\<rparr>"

text \<open>\<open>None\<close> stands for the empty dictionary (\<^verbatim>\<open>if not complexity_data\<close>).\<close>

definition format_complexity_analysis ::
  "'f complexity_results option \<Rightarrow> 'f complexity_section" where
  "format_complexity_analysis complexity_data =
     (case complexity_data of
        None \<Rightarrow> NoComplexityAnalysis
      | Some cd \<Rightarrow>
          (let summary = cr_summary cd
           in ComplexityAnalysis
                \<lparr>rep_total_files_analyzed = analyzed_files summary,
                 rep_average_complexity = average_complexity summary,
                 rep_high_complexity_count = length (high_complexity_files summary),
                 rep_high_complexity_files = high_complexity_files summary,
                 rep_detailed_metrics =
                   take 20 (map detailed_metric_of
                              (filter (\<lambda>f. fc_max_complexity f > 5) (cr_files cd)))\<rparr>))"

subsection \<open>What the claims call scored files and per-file maximum\<close>

text \<open>A file is scored when its extension is supported and the metrics call returns.\<close>

definition scored_files :: "(string \<Rightarrow> cc_item list option) \<Rightarrow> CodeFile list \<Rightarrow> CodeFile list" where
  "scored_files cc_visit code_files =
     filter (\<lambda>f. extension f \<in> set [''.py'', ''.java''] \<and> cc_visit (content f) \<noteq> None)
       code_files"

text \<open>The largest score of a file's blocks, and 0 for a file without blocks.\<close>

definition max_score :: "(string \<Rightarrow> cc_item list option) \<Rightarrow> CodeFile \<Rightarrow> int" where
  "max_score cc_visit f =
     (case cc_visit (content f) of
        None \<Rightarrow> 0
      | Some items \<Rightarrow> Max (set (0 # map cc_complexity items)))"

text \<open>The invariant of the outer loop, stated after the files \<open>fs\<close> have been visited.\<close>

definition cstate_ok ::
  "(string \<Rightarrow> cc_item list option) \<Rightarrow> CodeFile list \<Rightarrow> complexity_state \<Rightarrow> bool"
  where
  "cstate_ok cc fs s \<longleftrightarrow>
     map fc_path (cs_files s) = map relative_path (scored_files cc fs) \<and>
     map fc_max_complexity (cs_files s) = map (max_score cc) (scored_files cc fs) \<and>
     cs_high_complexity_files s =
       map (\<lambda>f. \<lparr>he_path = fc_path f, he_max_complexity = fc_max_complexity f\<rparr>)
         (filter (\<lambda>f. fc_max_complexity f > 10) (cs_files s)) \<and>
     cs_total_complexity s = sum_list (map (max_score cc) (scored_files cc fs)) \<and>
     cs_analyzed_count s = length (scored_files cc fs)"


text \<open>Example: 21 Python files, each with one block of score 11; floats as exact
  fractions (numerator, denominator), rounding left out.\<close>

definition py_file :: "nat \<Rightarrow> CodeFile" where
  "py_file i = \<lparr>path = ''/repo/m'' @ str_nat i @ ''.py'', relative_path = ''m'' @ str_nat i @ ''.py'',
               content = ''def f(): ...'', extension = ''.py''\<rparr>"

definition cc_eleven :: "string \<Rightarrow> cc_item list option" where
  "cc_eleven text = Some [\<lparr>cc_name = ''f'', cc_complexity = 11, cc_letter = ''F'', cc_lineno = 1\<rparr>]"

definition frac_div :: "int \<Rightarrow> int \<Rightarrow> int \<times> int" where
  "frac_div a b = (a, b)"

definition frac_round :: "int \<times> int \<Rightarrow> int \<Rightarrow> int \<times> int" where
  "frac_round x n = x"

section \<open>JSON values and the dynamic operations applied to them\<close>

text \<open>
  What \<^verbatim>\<open>json.loads\<close> returns: \<^verbatim>\<open>None\<close>, a bool, an int, a float (type parameter \<open>'f\<close>), a
  string, a list, or a dictionary (an association list in insertion order, each key
  once). The formatter applies \<^verbatim>\<open>in\<close>, indexing, iteration, \<^verbatim>\<open>.get\<close>, \<^verbatim>\<open>len\<close> and slicing
  to such values without checking their type; an operation a value does not support
  raises.
\<close>

datatype 'f json =
  JNull
| JBool bool
| JInt int
| JFloat 'f
| JStr string
| JList "'f json list"
| JDict "(string \<times> 'f json) list"

text \<open>The exceptions of the model. \<open>JSONDecodeError\<close> carries \<^verbatim>\<open>str(e)\<close>; \<open>OtherException\<close>
  stands for every other exception class (a transport failure of the model call, a
  \<^verbatim>\<open>RecursionError\<close> or plain \<^verbatim>\<open>ValueError\<close> of the parser, an \<^verbatim>\<open>OSError\<close>) and carries its name.\<close>

datatype pyerr =
  TypeError | AttributeError | KeyError | JSONDecodeError string | OtherException string

definition py_bind :: "pyerr + 'a \<Rightarrow> ('a \<Rightarrow> pyerr + 'b) \<Rightarrow> pyerr + 'b" where
  "py_bind m f = (case m of Inl e \<Rightarrow> Inl e | Inr x \<Rightarrow> f x)"

text \<open>A comprehension or \<^verbatim>\<open>for\<close> loop whose body may raise: the first exception ends it.\<close>

fun map_err :: "('a \<Rightarrow> pyerr + 'b) \<Rightarrow> 'a list \<Rightarrow> pyerr + 'b list" where
  "map_err f [] = Inr []"
| "map_err f (x # xs) =
     py_bind (f x) (\<lambda>y. py_bind (map_err f xs) (\<lambda>ys. Inr (y # ys)))"

text \<open>\<^verbatim>\<open>key in v\<close> for a string key: a key of a dictionary, an element of a list, a
  substring of a string.\<close>

fun py_in :: "string \<Rightarrow> 'f json \<Rightarrow> pyerr + bool" where
  "py_in k (JDict kvs) = Inr (k \<in> set (map fst kvs))"
| "py_in k (JList xs) = Inr (JStr k \<in> set xs)"
| "py_in k (JStr s) = Inr (str_contains k s)"
| "py_in k v = Inl TypeError"

text \<open>\<^verbatim>\<open>v[key]\<close> for a string key.\<close>

fun py_getitem :: "'f json \<Rightarrow> string \<Rightarrow> pyerr + 'f json" where
  "py_getitem (JDict kvs) k = (case map_of kvs k of None \<Rightarrow> Inl KeyError | Some x \<Rightarrow> Inr x)"
| "py_getitem v k = Inl TypeError"

text \<open>\<^verbatim>\<open>v.get(key, default)\<close>: only dictionaries have the method.\<close>

fun py_get :: "'f json \<Rightarrow> string \<Rightarrow> 'f json \<Rightarrow> pyerr + 'f json" where
  "py_get (JDict kvs) k d = (case map_of kvs k of None \<Rightarrow> Inr d | Some x \<Rightarrow> Inr x)"
| "py_get v k d = Inl AttributeError"

text \<open>\<^verbatim>\<open>for x in v\<close>: the keys of a dictionary, the elements of a list, the characters of a
  string.\<close>

fun py_iter :: "'f json \<Rightarrow> pyerr + 'f json list" where
  "py_iter (JDict kvs) = Inr (map (\<lambda>kv. JStr (fst kv)) kvs)"
| "py_iter (JList xs) = Inr xs"
| "py_iter (JStr s) = Inr (map (\<lambda>c. JStr [c]) s)"
| "py_iter v = Inl TypeError"

fun py_len :: "'f json \<Rightarrow> pyerr + nat" where
  "py_len (JDict kvs) = Inr (length kvs)"
| "py_len (JList xs) = Inr (length xs)"
| "py_len (JStr s) = Inr (length s)"
| "py_len v = Inl TypeError"

text \<open>\<^verbatim>\<open>v[:n]\<close>. On a dictionary the slice is used as a key, which raises (TypeError before
  Python 3.12, KeyError from 3.12 on; the model has TypeError).\<close>

fun py_slice_to :: "'f json \<Rightarrow> nat \<Rightarrow> pyerr + 'f json" where
  "py_slice_to (JList xs) n = Inr (JList (take n xs))"
| "py_slice_to (JStr s) n = Inr (JStr (take n s))"
| "py_slice_to v n = Inl TypeError"

text \<open>\<^verbatim>\<open>d[k] = v\<close> on a dictionary: the value of an existing key is replaced in place, a new
  key is added at the end.\<close>

fun dict_set :: "'k \<Rightarrow> 'v \<Rightarrow> ('k \<times> 'v) list \<Rightarrow> ('k \<times> 'v) list" where
  "dict_set k v [] = [(k, v)]"
| "dict_set k v ((k', v') # d) = (if k = k' then (k', v) # d else (k', v') # dict_set k v d)"

text \<open>\<^verbatim>\<open>obj[key] = value\<close> for a string key: only dictionaries accept it.\<close>

fun py_setitem :: "'f json \<Rightarrow> string \<Rightarrow> 'f json \<Rightarrow> pyerr + 'f json" where
  "py_setitem (JDict kvs) k v = Inr (JDict (dict_set k v kvs))"
| "py_setitem obj k v = Inl TypeError"

section \<open>OutputFormatter.\_format\_detailed\_analysis (output\_formatter.py)\<close>

text \<open>One entry of \<^verbatim>\<open>key_methods\<close>.\<close>

definition format_method :: "'f json \<Rightarrow> pyerr + 'f json" where
  "format_method m =
     py_bind (py_get m ''name'' (JStr '''')) (\<lambda>name.
     py_bind (py_get m ''signature'' (JStr '''')) (\<lambda>signature.
     py_bind (py_get m ''description'' (JStr '''')) (\<lambda>description.
     py_bind (py_get m ''complexity'' (JStr ''unknown'')) (\<lambda>complexity.
     Inr (JDict [(''name'', name), (''signature'', signature),
                 (''description'', description), (''complexity'', complexity)])))))"

text \<open>\<^verbatim>\<open>class_info\<close> for one class of one file.\<close>

definition format_class :: "'f json \<Rightarrow> 'f json \<Rightarrow> pyerr + 'f json" where
  "format_class file_path cls =
     py_bind (py_get cls ''name'' (JStr '''')) (\<lambda>name.
     py_bind (py_get cls ''purpose'' (JStr '''')) (\<lambda>purpose.
     py_bind (py_get cls ''methods'' (JList [])) (\<lambda>methods.
     py_bind (py_len methods) (\<lambda>method_count.
     py_bind (py_slice_to methods 5) (\<lambda>top.
     py_bind (py_iter top) (\<lambda>ms.
     py_bind (map_err format_method ms) (\<lambda>key_methods.
     py_bind (py_get cls ''relationships'' (JList [])) (\<lambda>relationships.
     Inr (JDict [(''name'', name), (''file'', file_path), (''purpose'', purpose),
                 (''method_count'', JInt (int method_count)),
                 (''key_methods'', JList key_methods),
                 (''relationships'', relationships)])))))))))"

definition format_key_function :: "'f json \<Rightarrow> 'f json \<Rightarrow> pyerr + 'f json" where
  "format_key_function file_path func =
     py_bind (py_get func ''name'' (JStr '''')) (\<lambda>name.
     py_bind (py_get func ''description'' (JStr '''')) (\<lambda>description.
     Inr (JDict [(''name'', name), (''file'', file_path), (''description'', description)])))"

text \<open>The body of \<^verbatim>\<open>for file_analysis in chunk["files"]\<close>: the classes and the key
  functions it appends.\<close>

definition format_file_analysis :: "'f json \<Rightarrow> pyerr + ('f json list \<times> 'f json list)" where
  "format_file_analysis file_analysis =
     py_bind (py_get file_analysis ''path'' (JStr ''unknown'')) (\<lambda>file_path.
     py_bind (py_get file_analysis ''classes'' (JList [])) (\<lambda>cv.
     py_bind (py_iter cv) (\<lambda>cs.
     py_bind (map_err (format_class file_path) cs) (\<lambda>classes.
     py_bind (py_get file_analysis ''key_functions'' (JList [])) (\<lambda>kv.
     py_bind (py_iter kv) (\<lambda>ks.
     py_bind (map_err (format_key_function file_path) ks) (\<lambda>funcs.
     Inr (classes, funcs))))))))"

text \<open>The body of \<^verbatim>\<open>for chunk in chunk_analyses\<close>.\<close>

definition format_chunk :: "'f json \<Rightarrow> pyerr + ('f json list \<times> 'f json list)" where
  "format_chunk chunk =
     py_bind (py_in ''files'' chunk) (\<lambda>has_files.
       if has_files then
         py_bind (py_getitem chunk ''files'') (\<lambda>fv.
         py_bind (py_iter fv) (\<lambda>fas.
         py_bind (map_err format_file_analysis fas) (\<lambda>rs.
         Inr (concat (map fst rs), concat (map snd rs)))))
       else Inr ([], []))"

text \<open>\<^verbatim>\<open>all_classes\<close> and \<^verbatim>\<open>all_key_functions\<close> after the loop.\<close>

definition collect_detailed :: "'f json list \<Rightarrow> pyerr + ('f json list \<times> 'f json list)" where
  "collect_detailed chunk_analyses =
     py_bind (map_err format_chunk chunk_analyses) (\<lambda>rs.
     Inr (concat (map fst rs), concat (map snd rs)))"

record 'f detailed_analysis =
  total_classes_identified :: nat
  total_key_functions_identified :: nat
  classes :: "'f json list"
  key_functions :: "'f json list"

definition format_detailed_analysis :: "'f json list \<Rightarrow> pyerr + 'f detailed_analysis" where
  "format_detailed_analysis chunk_analyses =
     py_bind (collect_detailed chunk_analyses) (\<lambda>r.
       case r of (all_classes, all_key_functions) \<Rightarrow>
         Inr \<lparr>total_classes_identified = length all_classes,
              total_key_functions_identified = length all_key_functions,
              classes = all_classes,
              key_functions = take 50 all_key_functions\<rparr>)"

section \<open>LLMProvider.analyze\_code\_chunk (llm\_provider.py)\<close>

text \<open>The two prompts of \<^verbatim>\<open>analyze_code_chunk\<close>, the second with the chunk text, the chunk
  number and the number of chunks filled in (\<open>chunk_idx\<close> is the parameter \<^verbatim>\<open>chunk_id\<close>).\<close>

definition system_prompt :: string where
  \<open>system_prompt =
     ''You are an expert code analyzer. Analyze the provided code and extract structured information.\<newline>''
     @ ''Focus on:\<newline>''
     @ ''1. Key classes and their purposes\<newline>''
     @ ''2. Important methods with signatures and descriptions\<newline>''
     @ ''3. Design patterns used\<newline>''
     @ ''4. Code complexity indicators\<newline>''
     @ ''5. Dependencies and relationships\<newline>''
     @ ''\<newline>''
     @ ''Return your analysis in a structured JSON format.''\<close>

definition user_prompt :: "string \<Rightarrow> nat \<Rightarrow> nat \<Rightarrow> string" where
  \<open>user_prompt chunk_text chunk_idx total_chunks =
     ''Analyze the following code (Chunk ''
     @ str_nat (chunk_idx + 1)
     @ ''/''
     @ str_nat total_chunks
     @ ''):\<newline>''
     @ ''\<newline>''
     @ chunk_text
     @ ''\<newline>''
     @ ''\<newline>''
     @ ''Please provide a JSON response with the following structure:\<newline>''
     @ ''{\<newline>''
     @ ''    "chunk_id": ''
     @ str_nat chunk_idx
     @ '',\<newline>''
     @ ''    "files": [\<newline>''
     @ ''        {\<newline>''
     @ ''            "path": "file/path",\<newline>''
     @ ''            "classes": [\<newline>''
     @ ''                {\<newline>''
     @ ''                    "name": "ClassName",\<newline>''
     @ ''                    "purpose": "Brief description",\<newline>''
     @ ''                    "methods": [\<newline>''
     @ ''                        {\<newline>''
     @ ''                            "name": "methodName",\<newline>''
     @ ''                            "signature": "returnType methodName(params)",\<newline>''
     @ ''                            "description": "What this method does",\<newline>''
     @ ''                            "complexity": "low/medium/high"\<newline>''
     @ ''                        }\<newline>''
     @ ''                    ],\<newline>''
     @ ''                    "relationships": ["depends on X", "implements Y"]\<newline>''
     @ ''                }\<newline>''
     @ ''            ],\<newline>''
     @ ''            "key_functions": [],\<newline>''
     @ ''            "complexity_notes": "Overall complexity assessment"\<newline>''
     @ ''        }\<newline>''
     @ ''    ]\<newline>''
     @ ''}\<newline>''
     @ ''\<newline>''
     @ ''Be concise but thorough. Focus on the most important elements.''\<close>

text \<open>\<^verbatim>\<open>s.find(sub, start)\<close>: the lowest index from \<open>start\<close> on at which \<open>sub\<close> occurs, or -1.\<close>

fun find_at :: "string \<Rightarrow> string \<Rightarrow> nat \<Rightarrow> int" where
  "find_at [] sub i = (if sub = [] then int i else - 1)"
| "find_at (x # xs) sub i = (if startswith (x # xs) sub then int i else find_at xs sub (i + 1))"

definition py_find :: "string \<Rightarrow> string \<Rightarrow> nat \<Rightarrow> int" where
  "py_find s sub start = (if start > length s then - 1 else find_at (drop start s) sub start)"

text \<open>\<^verbatim>\<open>s[a:b]\<close>: a negative bound counts from the end, and both bounds are clamped.\<close>

definition slice_bound :: "nat \<Rightarrow> int \<Rightarrow> nat" where
  "slice_bound n i = (if i < 0 then nat (max 0 (int n + i)) else min (nat i) n)"

definition py_slice :: "string \<Rightarrow> int \<Rightarrow> int \<Rightarrow> string" where
  "py_slice s a b =
     (let lo = slice_bound (length s) a; hi = slice_bound (length s) b
      in take (hi - lo) (drop lo s))"

text \<open>\<^verbatim>\<open>s.strip()\<close>: the whitespace code points below 256 are 9 to 13, 28 to 32, 133
  and 160.\<close>

definition is_space :: "char \<Rightarrow> bool" where
  "is_space c =
     (let n = (of_char c :: nat)
      in (9 \<le> n \<and> n \<le> 13) \<or> (28 \<le> n \<and> n \<le> 32) \<or> n = 133 \<or> n = 160)"

definition py_strip :: "string \<Rightarrow> string" where
  "py_strip s = rev (dropWhile is_space (rev (dropWhile is_space s)))"

text \<open>The text handed to the parser: the contents of the first fenced block when the
  response has a fence, the whole response otherwise. The code assigns it to the
  variable \<^verbatim>\<open>response\<close> again.\<close>

definition extract_json_text :: "string \<Rightarrow> string" where
  \<open>extract_json_text response =
     (if str_contains ''```json'' response then
        (let json_start = py_find response ''```json'' 0 + 7;
             json_end = py_find response ''```'' (nat json_start)
         in py_strip (py_slice response json_start json_end))
      else if str_contains ''```'' response then
        (let json_start = py_find response ''```'' 0 + 3;
             json_end = py_find response ''```'' (nat json_start)
         in py_strip (py_slice response json_start json_end))
      else response)\<close>

text \<open>The dictionary returned when \<^verbatim>\<open>json.loads\<close> raises \<^verbatim>\<open>JSONDecodeError\<close>; \<open>msg\<close> is
  \<^verbatim>\<open>str(e)\<close>.\<close>

definition raw_fallback :: "nat \<Rightarrow> string \<Rightarrow> string \<Rightarrow> 'f json" where
  "raw_fallback chunk_idx response msg =
     JDict [(''chunk_id'', JInt (int chunk_idx)),
            (''files'', JList []),
            (''raw_response'', JStr response),
            (''parse_error'', JStr msg)]"

text \<open>
  The model call and the JSON parser are outside the repository. \<open>invoke\<close> takes the two
  prompts and the state of the outside world and returns the response text, or the
  exception it re-raises, with the new state. \<open>json_loads\<close> returns the parsed value or
  the exception it raises. The \<^verbatim>\<open>except\<close> clause catches \<^verbatim>\<open>json.JSONDecodeError\<close> only; any
  other exception of the parser leaves the function.
\<close>

definition analyze_code_chunk ::
  "(string \<Rightarrow> string \<Rightarrow> 'w \<Rightarrow> (pyerr + string) \<times> 'w) \<Rightarrow> (string \<Rightarrow> pyerr + 'f json)
     \<Rightarrow> string \<Rightarrow> nat \<Rightarrow> nat \<Rightarrow> 'w \<Rightarrow> (pyerr + 'f json) \<times> 'w" where
  "analyze_code_chunk invoke json_loads chunk_text chunk_idx total_chunks w =
     (case invoke system_prompt (user_prompt chunk_text chunk_idx total_chunks) w of
        (Inl e, w') \<Rightarrow> (Inl e, w')
      | (Inr response, w') \<Rightarrow>
          (let response = extract_json_text response
           in case json_loads response of
                Inr v \<Rightarrow> (Inr v, w')
              | Inl (JSONDecodeError msg) \<Rightarrow> (Inr (raw_fallback chunk_idx response msg), w')
              | Inl e \<Rightarrow> (Inl e, w')))"

section \<open>CodeAnalyzer.analyze\_with\_llm, step 3 (analyzer.py)\<close>

text \<open>The loop \<^verbatim>\<open>for i, chunk in enumerate(chunks)\<close>, entered at index \<open>i\<close>; \<open>total_chunks\<close> is
  \<^verbatim>\<open>len(chunks)\<close>. An exception of a call leaves the loop and the function.\<close>

fun analyze_chunks_from ::
  "(string \<Rightarrow> string \<Rightarrow> 'w \<Rightarrow> (pyerr + string) \<times> 'w) \<Rightarrow> (string \<Rightarrow> pyerr + 'f json)
     \<Rightarrow> nat \<Rightarrow> nat \<Rightarrow> CodeChunk list \<Rightarrow> 'w \<Rightarrow> (pyerr + 'f json list) \<times> 'w" where
  "analyze_chunks_from invoke json_loads i total_chunks [] w = (Inr [], w)"
| "analyze_chunks_from invoke json_loads i total_chunks (chunk # rest) w =
     (case analyze_code_chunk invoke json_loads (to_text (files chunk)) i total_chunks w of
        (Inl e, w') \<Rightarrow> (Inl e, w')
      | (Inr analysis, w') \<Rightarrow>
          (case analyze_chunks_from invoke json_loads (i + 1) total_chunks rest w' of
             (Inl e, w'') \<Rightarrow> (Inl e, w'')
           | (Inr chunk_analyses, w'') \<Rightarrow> (Inr (analysis # chunk_analyses), w'')))"

definition analyze_chunks ::
  "(string \<Rightarrow> string \<Rightarrow> 'w \<Rightarrow> (pyerr + string) \<times> 'w) \<Rightarrow> (string \<Rightarrow> pyerr + 'f json)
     \<Rightarrow> CodeChunk list \<Rightarrow> 'w \<Rightarrow> (pyerr + 'f json list) \<times> 'w" where
  "analyze_chunks invoke json_loads chunks w =
     analyze_chunks_from invoke json_loads 0 (length chunks) chunks w"

section \<open>LLMProvider.generate\_project\_overview (llm\_provider.py)\<close>

text \<open>
  What \<^verbatim>\<open>RepositoryManager.get_repository_info\<close> returns: the empty dictionary when no
  repository object is held, the entries \<^verbatim>\<open>url\<close> and \<^verbatim>\<open>local_path\<close> when git does not answer,
  and otherwise also \<^verbatim>\<open>branch\<close> and \<^verbatim>\<open>last_commit\<close> (hash, author, date, message). All
  entries are strings.
\<close>

datatype repo_info =
  RepoInfoEmpty
| RepoInfoBasic string string
| RepoInfoFull string string string string string string string

fun repo_info_json :: "repo_info \<Rightarrow> 'f json" where
  "repo_info_json RepoInfoEmpty = JDict []"
| "repo_info_json (RepoInfoBasic url local_path) =
     JDict [(''url'', JStr url), (''local_path'', JStr local_path)]"
| "repo_info_json (RepoInfoFull url local_path branch hash author date message) =
     JDict [(''url'', JStr url), (''local_path'', JStr local_path), (''branch'', JStr branch),
            (''last_commit'',
             JDict [(''hash'', JStr hash), (''author'', JStr author), (''date'', JStr date),
                    (''message'', JStr message)])]"

text \<open>\<^verbatim>\<open>repo_info.get('url', 'Unknown')\<close>, as the prompt prints it.\<close>

fun repo_url_text :: "repo_info \<Rightarrow> string" where
  "repo_url_text RepoInfoEmpty = ''Unknown''"
| "repo_url_text (RepoInfoBasic url local_path) = url"
| "repo_url_text (RepoInfoFull url local_path branch hash author date message) = url"

definition overview_system_prompt :: string where
  \<open>overview_system_prompt =
     ''You are an expert software architect analyzing a codebase. \<newline>''
     @ ''Provide a high-level overview of the project including its purpose, architecture, and key technologies.''\<close>

definition overview_user_prompt :: "string \<Rightarrow> repo_info \<Rightarrow> string" where
  \<open>overview_user_prompt overview_text repo_info =
     ''Analyze this project overview:\<newline>''
     @ ''\<newline>''
     @ ''Repository: ''
     @ repo_url_text repo_info
     @ ''\<newline>''
     @ ''\<newline>''
     @ overview_text
     @ ''\<newline>''
     @ ''\<newline>''
     @ ''Please provide a JSON response with:\<newline>''
     @ ''{\<newline>''
     @ ''    "project_name": "Name of the project",\<newline>''
     @ ''    "purpose": "What this project does",\<newline>''
     @ ''    "domain": "Application domain (e.g., e-commerce, data processing, web app)",\<newline>''
     @ ''    "key_technologies": ["tech1", "tech2"],\<newline>''
     @ ''    "architecture_style": "MVC, Microservices, Layered, etc.",\<newline>''
     @ ''    "main_components": [\<newline>''
     @ ''        {\<newline>''
     @ ''            "name": "component name",\<newline>''
     @ ''            "description": "what it does"\<newline>''
     @ ''        }\<newline>''
     @ ''    ],\<newline>''
     @ ''    "estimated_complexity": "low/medium/high",\<newline>''
     @ ''    "notable_features": ["feature1", "feature2"]\<newline>''
     @ ''}''\<close>

text \<open>The dictionary returned when \<^verbatim>\<open>json.loads\<close> raises \<^verbatim>\<open>JSONDecodeError\<close>.\<close>

definition overview_fallback :: "string \<Rightarrow> repo_info \<Rightarrow> string \<Rightarrow> 'f json" where
  "overview_fallback response repo_info msg =
     JDict [(''project_name'', JStr ''Unknown''),
            (''purpose'', JStr (take 500 response)),
            (''repository_info'', repo_info_json repo_info),
            (''parse_error'', JStr msg)]"

text \<open>The assignment \<^verbatim>\<open>overview["repository_info"] = repo_info\<close> is inside the \<^verbatim>\<open>try\<close>; its
  \<^verbatim>\<open>TypeError\<close> on a parsed value that is no dictionary is not caught.\<close>

definition generate_project_overview ::
  "(string \<Rightarrow> string \<Rightarrow> 'w \<Rightarrow> (pyerr + string) \<times> 'w) \<Rightarrow> (string \<Rightarrow> pyerr + 'f json)
     \<Rightarrow> string \<Rightarrow> repo_info \<Rightarrow> 'w \<Rightarrow> (pyerr + 'f json) \<times> 'w" where
  "generate_project_overview invoke json_loads overview_text repo_info w =
     (case invoke overview_system_prompt (overview_user_prompt overview_text repo_info) w of
        (Inl e, w') \<Rightarrow> (Inl e, w')
      | (Inr response, w') \<Rightarrow>
          (let response = extract_json_text response
           in case json_loads response of
                Inr overview \<Rightarrow>
                  (py_setitem overview ''repository_info'' (repo_info_json repo_info), w')
              | Inl (JSONDecodeError msg) \<Rightarrow>
                  (Inr (overview_fallback response repo_info msg), w')
              | Inl e \<Rightarrow> (Inl e, w')))"

section \<open>CodeAnalyzer.extract\_method\_signatures and statistics (analyzer.py)\<close>

text \<open>
  The regular-expression engine is outside the repository: \<open>finditer\<close> gives, for one of
  the two patterns and a text, the matches in order, each with its groups 0, 1 and 2.
\<close>

datatype re_pattern = JavaMethodPattern | PythonMethodPattern

record re_match =
  group0 :: string
  group1 :: string
  group2 :: string

record method_signature =
  ms_signature :: string
  ms_name :: string
  ms_type :: string

text \<open>\<^verbatim>\<open>s.rstrip('{')\<close>\<close>

definition rstrip_brace :: "string \<Rightarrow> string" where
  "rstrip_brace s = rev (dropWhile (\<lambda>c. c = CHR ''{'') (rev s))"

definition file_methods :: "(re_pattern \<Rightarrow> string \<Rightarrow> re_match list) \<Rightarrow> CodeFile \<Rightarrow> method_signature list"
  where
  "file_methods finditer file =
     (if extension file = ''.java'' then
        map (\<lambda>m. \<lparr>ms_signature = rstrip_brace (py_strip (group0 m)), ms_name = group2 m,
                   ms_type = ''java_method''\<rparr>)
          (finditer JavaMethodPattern (content file))
      else if extension file = ''.py'' then
        map (\<lambda>m. \<lparr>ms_signature = py_strip (group0 m), ms_name = group1 m,
                   ms_type = ''python_function''\<rparr>)
          (finditer PythonMethodPattern (content file))
      else [])"

definition extract_method_signatures ::
  "(re_pattern \<Rightarrow> string \<Rightarrow> re_match list) \<Rightarrow> CodeFile list
     \<Rightarrow> (string \<times> method_signature list) list" where
  "extract_method_signatures finditer code_files =
     foldl (\<lambda>methods_by_file file.
              (let methods = file_methods finditer file
               in if methods \<noteq> [] then dict_set (relative_path file) methods methods_by_file
                  else methods_by_file))
       [] code_files"

definition count_files_by_extension :: "CodeFile list \<Rightarrow> (string \<times> nat) list" where
  "count_files_by_extension code_files =
     foldl (\<lambda>counts file.
              (let ext = ext_or_default (extension file)
               in dict_set ext ((case map_of counts ext of None \<Rightarrow> 0 | Some n \<Rightarrow> n) + 1) counts))
       [] code_files"

record statistics =
  stat_total_files :: nat
  stat_total_chunks :: nat
  stat_total_lines :: nat
  stat_total_size_bytes :: nat
  stat_files_by_extension :: "(string \<times> nat) list"

section \<open>CodeAnalyzer.analyze\_with\_llm (analyzer.py)\<close>

record 'f analysis_results =
  ar_project_overview :: "'f json"
  ar_chunk_analyses :: "'f json list"
  ar_complexity_analysis :: "'f complexity_results"
  ar_method_signatures :: "(string \<times> method_signature list) list"
  ar_statistics :: statistics

text \<open>The overview call comes first, then one call per chunk; an exception of either
  leaves the function. The remaining steps do not raise.\<close>

definition analyze_with_llm ::
  "(string \<Rightarrow> string \<Rightarrow> 'w \<Rightarrow> (pyerr + string) \<times> 'w) \<Rightarrow> (string \<Rightarrow> pyerr + 'f json)
     \<Rightarrow> (string \<Rightarrow> nat) \<Rightarrow> int
     \<Rightarrow> (string \<Rightarrow> cc_item list option) \<Rightarrow> (int \<Rightarrow> int \<Rightarrow> 'f) \<Rightarrow> ('f \<Rightarrow> int \<Rightarrow> 'f)
     \<Rightarrow> (re_pattern \<Rightarrow> string \<Rightarrow> re_match list)
     \<Rightarrow> CodeFile list \<Rightarrow> repo_info \<Rightarrow> 'w \<Rightarrow> (pyerr + 'f analysis_results) \<times> 'w" where
  "analyze_with_llm invoke json_loads count_tokens max_tokens cc_visit truediv round_nd finditer
     code_files repo_info w =
     (let overview_text = create_project_overview_chunk code_files
      in case generate_project_overview invoke json_loads overview_text repo_info w of
           (Inl e, w1) \<Rightarrow> (Inl e, w1)
         | (Inr project_overview, w1) \<Rightarrow>
             (let chunks = create_chunks count_tokens max_tokens code_files
              in case analyze_chunks invoke json_loads chunks w1 of
                   (Inl e, w2) \<Rightarrow> (Inl e, w2)
                 | (Inr chunk_analyses, w2) \<Rightarrow>
                     (Inr \<lparr>ar_project_overview = project_overview,
                           ar_chunk_analyses = chunk_analyses,
                           ar_complexity_analysis =
                             analyze_complexity cc_visit truediv round_nd code_files,
                           ar_method_signatures = extract_method_signatures finditer code_files,
                           ar_statistics =
                             \<lparr>stat_total_files = length code_files,
                              stat_total_chunks = length chunks,
                              stat_total_lines =
                                sum_list (map (\<lambda>f. length (split_chr (CHR 10) (content f)))
                                            code_files),
                              stat_total_size_bytes = sum_list (map file_size code_files),
                              stat_files_by_extension =
                                count_files_by_extension code_files\<rparr>\<rparr>, w2)))"

section \<open>OutputFormatter.format\_results (output\_formatter.py)\<close>

record method_info =
  mi_name :: string
  mi_signature :: string
  mi_type :: string

record file_info =
  fi_path :: string
  fi_method_count :: nat
  fi_methods :: "method_info list"

record code_structure =
  total_files_with_methods :: nat
  cs_file_infos :: "file_info list"

definition format_code_structure :: "(string \<times> method_signature list) list \<Rightarrow> code_structure" where
  "format_code_structure method_sigs =
     (let files_info =
            map (\<lambda>item. case item of (file_path, methods) \<Rightarrow>
                   \<lparr>fi_path = file_path,
                    fi_method_count = length methods,
                    fi_methods =
                      map (\<lambda>m. \<lparr>mi_name = ms_name m, mi_signature = ms_signature m,
                                 mi_type = ms_type m\<rparr>) (take 20 methods)\<rparr>)
              method_sigs
      in \<lparr>total_files_with_methods = length files_info, cs_file_infos = files_info\<rparr>)"

record 'f report_metadata =
  md_analysis_date :: string
  md_analyzer_version :: string
  md_llm_provider :: string
  md_repository :: "'f json"

record 'f report_overview =
  ov_name :: "'f json"
  ov_purpose :: "'f json"
  ov_domain :: "'f json"
  ov_architecture :: "'f json"
  ov_key_technologies :: "'f json"
  ov_main_components :: "'f json"
  ov_estimated_complexity :: "'f json"
  ov_notable_features :: "'f json"

record 'f formatted_results =
  fr_metadata :: "'f report_metadata"
  fr_project_overview :: "'f report_overview"
  fr_statistics :: statistics
  fr_code_structure :: code_structure
  fr_complexity_analysis :: "'f complexity_section"
  fr_detailed_analysis :: "'f detailed_analysis"

text \<open>
  \<open>now\<close> is the text of \<^verbatim>\<open>datetime.now().isoformat()\<close> and \<open>provider\<close> the configured
  \<^verbatim>\<open>config.llm_provider\<close>. The entries are computed in the order of the dictionary literal.
\<close>

definition format_results ::
  "string \<Rightarrow> string \<Rightarrow> 'f analysis_results \<Rightarrow> pyerr + 'f formatted_results" where
  "format_results now provider analysis_results =
     (let po = ar_project_overview analysis_results in
      py_bind (py_get po ''repository_info'' (JDict [])) (\<lambda>repo.
      py_bind (py_get po ''project_name'' (JStr ''Unknown'')) (\<lambda>name.
      py_bind (py_get po ''purpose'' (JStr '''')) (\<lambda>purpose.
      py_bind (py_get po ''domain'' (JStr '''')) (\<lambda>domain.
      py_bind (py_get po ''architecture_style'' (JStr '''')) (\<lambda>architecture.
      py_bind (py_get po ''key_technologies'' (JList [])) (\<lambda>key_technologies.
      py_bind (py_get po ''main_components'' (JList [])) (\<lambda>main_components.
      py_bind (py_get po ''estimated_complexity'' (JStr '''')) (\<lambda>estimated_complexity.
      py_bind (py_get po ''notable_features'' (JList [])) (\<lambda>notable_features.
      py_bind (format_detailed_analysis (ar_chunk_analyses analysis_results)) (\<lambda>detailed.
      Inr \<lparr>fr_metadata =
             \<lparr>md_analysis_date = now, md_analyzer_version = ''1.0.0'',
              md_llm_provider = provider, md_repository = repo\<rparr>,
           fr_project_overview =
             \<lparr>ov_name = name, ov_purpose = purpose, ov_domain = domain,
              ov_architecture = architecture, ov_key_technologies = key_technologies,
              ov_main_components = main_components,
              ov_estimated_complexity = estimated_complexity,
              ov_notable_features = notable_features\<rparr>,
           fr_statistics = ar_statistics analysis_results,
           fr_code_structure = format_code_structure (ar_method_signatures analysis_results),
           fr_complexity_analysis =
             format_complexity_analysis (Some (ar_complexity_analysis analysis_results)),
           fr_detailed_analysis = detailed\<rparr>)))))))))))"

section \<open>main (main.py)\<close>

text \<open>
  The exit status of \<^verbatim>\<open>main\<close>: 0 when the body of its \<^verbatim>\<open>try\<close> runs to the end, 1 when no
  code files were found or an exception is caught. Cloning and reading the repository
  and writing the two report files are input and output outside the core:
  \<open>repository\<close> is the outcome of steps 1 and 2 (the repository information and the
  files read, or the exception), \<open>save_results\<close> and \<open>save_summary\<close> return the path
  written or the exception. Console output is not modelled.
\<close>

definition main ::
  "(pyerr + repo_info \<times> CodeFile list)
     \<Rightarrow> (string \<Rightarrow> string \<Rightarrow> 'w \<Rightarrow> (pyerr + string) \<times> 'w) \<Rightarrow> (string \<Rightarrow> pyerr + 'f json)
     \<Rightarrow> (string \<Rightarrow> nat) \<Rightarrow> int
     \<Rightarrow> (string \<Rightarrow> cc_item list option) \<Rightarrow> (int \<Rightarrow> int \<Rightarrow> 'f) \<Rightarrow> ('f \<Rightarrow> int \<Rightarrow> 'f)
     \<Rightarrow> (re_pattern \<Rightarrow> string \<Rightarrow> re_match list)
     \<Rightarrow> string \<Rightarrow> string
     \<Rightarrow> ('f formatted_results \<Rightarrow> pyerr + string) \<Rightarrow> ('f formatted_results \<Rightarrow> pyerr + string)
     \<Rightarrow> 'w \<Rightarrow> nat" where
  "main repository invoke json_loads count_tokens max_tokens cc_visit truediv round_nd finditer
     now provider save_results save_summary w =
     (case repository of
        Inl e \<Rightarrow> 1
      | Inr (repo_info, code_files) \<Rightarrow>
          if code_files = [] then 1
          else
            (case analyze_with_llm invoke json_loads count_tokens max_tokens cc_visit truediv
                    round_nd finditer code_files repo_info w of
               (Inl e, w') \<Rightarrow> 1
             | (Inr analysis_results, w') \<Rightarrow>
                 (case format_results now provider analysis_results of
                    Inl e \<Rightarrow> 1
                  | Inr formatted_results \<Rightarrow>
                      (case save_results formatted_results of
                         Inl e \<Rightarrow> 1
                       | Inr json_path \<Rightarrow>
                           (case save_summary formatted_results of
                              Inl e \<Rightarrow> 1
                            | Inr summary_path \<Rightarrow> 0)))))"

subsection \<open>Example collaborators and responses\<close>

text \<open>A model call that always answers \<open>r\<close> and counts its calls; a parser that accepts
  only the text \<open>{}\<close>.\<close>

definition invoke_const :: "string \<Rightarrow> string \<Rightarrow> string \<Rightarrow> nat \<Rightarrow> (pyerr + string) \<times> nat" where
  "invoke_const r sp up w = (Inr r, w + 1)"

definition json_loads_stub :: "string \<Rightarrow> pyerr + unit json" where
  "json_loads_stub s =
     (if s = ''{}'' then Inr (JDict []) else Inl (JSONDecodeError ''Expecting value''))"

definition fenced_response :: string where
  \<open>fenced_response = ''Here it is:\<newline>```json\<newline>not json\<newline>```\<newline>''\<close>

text \<open>A parsed chunk result naming three classes of one file.\<close>

definition three_classes :: "unit json" where
  "three_classes =
     JDict [(''chunk_id'', JInt 0),
            (''files'',
             JList [JDict [(''path'', JStr ''a.py''),
                           (''classes'',
                            JList [JDict [(''name'', JStr ''A'')],
                                   JDict [(''name'', JStr ''B'')],
                                   JDict [(''name'', JStr ''C'')]])]])]"

definition class_entry :: "string \<Rightarrow> unit json" where
  "class_entry n =
     JDict [(''name'', JStr n), (''file'', JStr ''a.py''), (''purpose'', JStr ''''),
            (''method_count'', JInt 0), (''key_methods'', JList []),
            (''relationships'', JList [])]"

text \<open>Two chunks, and a parsed chunk result with 51 key functions in one file.\<close>

definition two_chunks :: "CodeChunk list" where
  "two_chunks =
     [\<lparr>files = [doc_a], chunk_id = 0, token_count = 229\<rparr>,
      \<lparr>files = [doc_b], chunk_id = 1, token_count = 129\<rparr>]"

definition many_functions :: "unit json" where
  "many_functions =
     JDict [(''chunk_id'', JInt 0),
            (''files'',
             JList [JDict [(''path'', JStr ''a.py''),
                           (''key_functions'',
                            JList (replicate 51 (JDict [(''name'', JStr ''f'')])))]])]"

definition function_entry_f :: "unit json" where
  "function_entry_f =
     JDict [(''name'', JStr ''f''), (''file'', JStr ''a.py''), (''description'', JStr '''')]"

text \<open>A parser that fails on every text with an exception other than \<open>JSONDecodeError\<close>.\<close>

definition json_loads_deep :: "string \<Rightarrow> pyerr + unit json" where
  "json_loads_deep s = Inl (OtherException ''RecursionError'')"

text \<open>Two responses with fences: a plain block before a tagged one, and a fence that is
  never closed.\<close>

definition two_block_response :: string where
  \<open>two_block_response = ''```\<newline>foo\<newline>```\<newline>```json\<newline>{}\<newline>```''\<close>

definition unclosed_response :: string where
  \<open>unclosed_response = ''```json\<newline>{}''\<close>

text \<open>
  A whole run with two chunks (scenario C): the model answers the overview call with
  \<open>{}\<close>, the call for chunk 0 with a text the parser reads as \<open>three_classes\<close>, and every
  later call with text that is no JSON. The state counts the calls. The other
  collaborators: no method matches, float results left out, both report files written.
\<close>

definition invoke_scenario :: "string \<Rightarrow> string \<Rightarrow> nat \<Rightarrow> (pyerr + string) \<times> nat" where
  "invoke_scenario sp up w =
     (Inr (if w = 0 then ''{}'' else if w = 1 then ''three'' else ''not json''), w + 1)"

definition json_loads_scenario :: "string \<Rightarrow> pyerr + unit json" where
  "json_loads_scenario s =
     (if s = ''{}'' then Inr (JDict [])
      else if s = ''three'' then Inr three_classes
      else Inl (JSONDecodeError ''Expecting value''))"

definition no_float_div :: "int \<Rightarrow> int \<Rightarrow> unit" where
  "no_float_div a b = ()"

definition no_float_round :: "unit \<Rightarrow> int \<Rightarrow> unit" where
  "no_float_round x n = x"

definition finditer_none :: "re_pattern \<Rightarrow> string \<Rightarrow> re_match list" where
  "finditer_none p s = []"

definition save_ok :: "unit formatted_results \<Rightarrow> pyerr + string" where
  "save_ok formatted = Inr ''output/report''"

section \<open>Properties of create\_chunks\<close>

lemma chunk_step_cases:
  "chunk_step ct mt s f =
     (let t = ct (to_text (st_current_chunk_files s @ [f])) in
      if int t > mt then
        (if st_current_chunk_files s \<noteq> [] then
           s\<lparr>st_chunks := st_chunks s @
                [\<lparr>files = st_current_chunk_files s, chunk_id = st_chunk_id s,
                  token_count = st_current_tokens s\<rparr>,
                 \<lparr>files = [f], chunk_id = st_chunk_id s + 1, token_count = t\<rparr>],
             st_chunk_id := st_chunk_id s + 2,
             st_current_chunk_files := [],
             st_current_tokens := 0\<rparr>
         else
           s\<lparr>st_chunks := st_chunks s @
                [\<lparr>files = [f], chunk_id = st_chunk_id s, token_count = t\<rparr>],
             st_chunk_id := st_chunk_id s + 1,
             st_current_chunk_files := [],
             st_current_tokens := 0\<rparr>)
      else
        s\<lparr>st_current_chunk_files := st_current_chunk_files s @ [f],
          st_current_tokens := t\<rparr>)"
  by (simp add: chunk_step_def seal_single_def finalize_or_add_def Let_def)

lemma covered_step: "covered (chunk_step ct mt s f) = covered s @ [f]"
  by (simp add: chunk_step_cases covered_def Let_def)

lemma covered_foldl: "covered (foldl (chunk_step ct mt) s xs) = covered s @ xs"
  by (induction xs arbitrary: s) (simp_all add: covered_step)

lemma concat_final_chunks: "concat (map files (final_chunks s)) = covered s"
  by (simp add: final_chunks_def covered_def)

lemma create_chunks_concat:
  "concat (map files (create_chunks ct mt fs)) = sort_key relative_path fs"
  by (simp add: create_chunks_def concat_final_chunks covered_foldl)
     (simp add: covered_def init_state_def)

lemma ids_ok_step: "ids_ok s \<Longrightarrow> ids_ok (chunk_step ct mt s f)"
  by (simp add: chunk_step_cases ids_ok_def Let_def)

lemma ids_ok_foldl: "ids_ok s \<Longrightarrow> ids_ok (foldl (chunk_step ct mt) s xs)"
  by (induction xs arbitrary: s) (simp_all add: ids_ok_step)

lemma ids_final: "ids_ok s \<Longrightarrow> map chunk_id (final_chunks s) = [0..<length (final_chunks s)]"
  apply (simp add: ids_ok_def final_chunks_def)
  by (metis length_map length_upt diff_zero)

lemma create_chunks_ids:
  "map chunk_id (create_chunks ct mt fs) = [0..<length (create_chunks ct mt fs)]"
  unfolding create_chunks_def
  by (rule ids_final, rule ids_ok_foldl) (simp add: ids_ok_def init_state_def)

lemma filter_same_key:
  "distinct (map f zs) \<Longrightarrow> k \<in> set zs \<Longrightarrow> filter (\<lambda>x. f k = f x) zs = [k]"
proof (induction zs)
  case Nil
  then show ?case by simp
next
  case (Cons z zs)
  show ?case
  proof (cases "k = z")
    case True
    have "\<forall>x \<in> set zs. f z \<noteq> f x" using Cons.prems(1) by auto
    then have "filter (\<lambda>x. f z = f x) zs = []" by (simp add: filter_empty_conv)
    with True show ?thesis by simp
  next
    case False
    then have kin: "k \<in> set zs" using Cons.prems(2) by simp
    then have "f k \<noteq> f z"
      using Cons.prems(1) by (metis distinct.simps(2) image_eqI list.simps(9) set_map)
    with Cons.IH kin Cons.prems(1) show ?thesis by simp
  qed
qed

text \<open>Sorting by a key that is distinct on the input does not depend on the input's order.\<close>

lemma sort_key_unique:
  assumes "mset xs = mset ys" and "distinct (map f xs)"
  shows "sort_key f xs = sort_key f ys"
proof (rule properties_for_sort_key)
  show "mset (sort_key f ys) = mset xs" using assms by simp
  show "sorted (map f (sort_key f ys))" by simp
  fix k assume kin: "k \<in> set (sort_key f ys)"
  have "mset (map f (sort_key f ys)) = mset (map f xs)"
    using assms(1) by simp
  then have d: "distinct (map f (sort_key f ys))"
    using assms(2) by (metis mset_eq_imp_distinct_iff)
  have kx: "k \<in> set xs" using kin assms(1) by (metis mset_eq_setD set_sort)
  show "filter (\<lambda>x. f k = f x) (sort_key f ys) = filter (\<lambda>x. f k = f x) xs"
    using filter_same_key [OF d kin] filter_same_key [OF assms(2) kx] by simp
qed

lemma pending_ok_step: "pending_ok ct mt s \<Longrightarrow> pending_ok ct mt (chunk_step ct mt s f)"
  by (auto simp add: chunk_step_cases pending_ok_def budget_ok_def Let_def)

lemma pending_ok_foldl:
  "pending_ok ct mt s \<Longrightarrow> pending_ok ct mt (foldl (chunk_step ct mt) s xs)"
  by (induction xs arbitrary: s) (simp_all add: pending_ok_step)

lemma pending_ok_final:
  "pending_ok ct mt s \<Longrightarrow> c \<in> set (final_chunks s) \<Longrightarrow> budget_ok ct mt c"
  by (auto simp add: pending_ok_def final_chunks_def budget_ok_def split: if_splits)

lemma create_chunks_budget_ok:
  "c \<in> set (create_chunks ct mt fs) \<Longrightarrow> budget_ok ct mt c"
  unfolding create_chunks_def
  by (erule pending_ok_final [rotated], rule pending_ok_foldl)
     (simp add: pending_ok_def init_state_def)

lemma example_costs:
  "length (to_text [doc_a]) = 229" "length (to_text [doc_b]) = 129"
  "length (to_text [doc_c]) = 129" "length (to_text [doc_a, doc_b]) = 359"
  "length (to_text [doc_b, doc_c]) = 259"
  by code_simp+

lemma example_sorted:
  "sort_key relative_path [doc_c, doc_a, doc_b] = [doc_a, doc_b, doc_c]"
  "sort_key relative_path [doc_a, doc_b, doc_c] = [doc_a, doc_b, doc_c]"
  by code_simp+

lemma example_distinct: "distinct (map relative_path [doc_c, doc_a, doc_b])"
  by code_simp

text \<open>
  Claim C1 (coverage). For every list of input documents with distinct relative paths and
  every budget above 0, the files of the chunks returned by \<open>create_chunks\<close>, concatenated
  in chunk order, are exactly the input documents sorted by relative path. So the
  concatenation has the same documents as the input, each once, and the chunks carry
  the sequence numbers 0, 1, 2, ... in list order.
\<close>

theorem create_chunks_coverage:
  assumes "distinct (map relative_path code_files)" and "0 < max_tokens"
  shows "concat (map files (create_chunks count_tokens max_tokens code_files))
           = sort_key relative_path code_files
       \<and> mset (concat (map files (create_chunks count_tokens max_tokens code_files)))
           = mset code_files
       \<and> distinct (concat (map files (create_chunks count_tokens max_tokens code_files)))
       \<and> map chunk_id (create_chunks count_tokens max_tokens code_files)
           = [0..<length (create_chunks count_tokens max_tokens code_files)]"
proof -
  have d: "distinct code_files"
    using assms(1) by (simp add: distinct_map)
  show ?thesis
    using d by (simp add: create_chunks_concat create_chunks_ids)
qed

theorem create_chunks_coverage_witness:
  "distinct (map relative_path [doc_c, doc_a, doc_b]) \<and> (0::int) < 300
   \<and> concat (map files (create_chunks length 300 [doc_c, doc_a, doc_b]))
       = [doc_a, doc_b, doc_c]
   \<and> mset (concat (map files (create_chunks length 300 [doc_c, doc_a, doc_b])))
       = mset [doc_c, doc_a, doc_b]
   \<and> distinct (concat (map files (create_chunks length 300 [doc_c, doc_a, doc_b])))
   \<and> map chunk_id (create_chunks length 300 [doc_c, doc_a, doc_b])
       = [0..<length (create_chunks length 300 [doc_c, doc_a, doc_b])]"
proof -
  have h1: "distinct (map relative_path [doc_c, doc_a, doc_b])" by (rule example_distinct)
  have h2: "(0::int) < 300" by simp
  note r = create_chunks_coverage [OF h1 h2, of length, unfolded example_sorted]
  show ?thesis
    using r h1 h2 by blast
qed

text \<open>
  Claim C4 (determinism). Two enumeration orders of the same document set, with unique
  relative paths, and the same budget give the same list of chunks: the same groups of
  files in the same chunk order (and the same sequence numbers and recorded counts).
\<close>

theorem create_chunks_deterministic:
  assumes "mset fs = mset gs" and "distinct (map relative_path fs)"
  shows "create_chunks count_tokens max_tokens fs = create_chunks count_tokens max_tokens gs"
  by (simp add: create_chunks_def sort_key_unique [OF assms])

theorem create_chunks_deterministic_witness:
  "mset [doc_c, doc_a, doc_b] = mset [doc_a, doc_b, doc_c]
   \<and> distinct (map relative_path [doc_c, doc_a, doc_b])
   \<and> create_chunks length 300 [doc_c, doc_a, doc_b]
       = create_chunks length 300 [doc_a, doc_b, doc_c]"
proof -
  have h1: "mset [doc_c, doc_a, doc_b] = mset [doc_a, doc_b, doc_c]" by simp
  have h2: "distinct (map relative_path [doc_c, doc_a, doc_b])" by (rule example_distinct)
  show ?thesis
    using create_chunks_deterministic [OF h1 h2, of length 300] h1 h2 by blast
qed

text \<open>
  Claim C2 (budget respect), as stated: every chunk is within budget, or holds exactly one
  document and is flagged in the chunk as an oversized singleton. \<open>CodeChunk\<close> has no such
  flag: its attributes are the files, the sequence number and the recorded count. The
  chunk built for \<open>doc_b\<close> (129 characters serialized, character count as tokenizer) is the
  same value under budget 100, where it is an oversized singleton, and under budget
  200, where it is within budget; nothing in the chunk tells the two apart.
\<close>

theorem create_chunks_no_oversized_flag_counterexample:
  "create_chunks length 100 [doc_b] = [\<lparr>files = [doc_b], chunk_id = 0, token_count = 129\<rparr>]
   \<and> create_chunks length 200 [doc_b] = [\<lparr>files = [doc_b], chunk_id = 0, token_count = 129\<rparr>]
   \<and> int (length (to_text [doc_b])) > 100
   \<and> int (length (to_text [doc_b])) \<le> 200"
  by code_simp

text \<open>
  Claim C2, amended: every chunk returned by \<open>create_chunks\<close> either has a serialized
  text whose count is at most the budget, or holds exactly one document and its recorded
  \<open>token_count\<close> is above the budget. The recorded count compared with the configured
  budget is the only trace the chunk keeps of the single-file path.
\<close>

theorem create_chunks_budget:
  assumes "c \<in> set (create_chunks count_tokens max_tokens code_files)"
  shows "int (count_tokens (to_text (files c))) \<le> max_tokens
       \<or> (length (files c) = 1 \<and> int (token_count c) > max_tokens)"
  using create_chunks_budget_ok [OF assms] by (simp add: budget_ok_def)

theorem create_chunks_budget_witness:
  "\<lparr>files = [doc_b], chunk_id = 0, token_count = 129\<rparr> \<in> set (create_chunks length 100 [doc_b])
   \<and> \<not> int (length (to_text (files \<lparr>files = [doc_b], chunk_id = 0, token_count = 129\<rparr>))) \<le> 100
   \<and> length (files \<lparr>files = [doc_b], chunk_id = 0, token_count = 129\<rparr>) = 1
   \<and> int (token_count \<lparr>files = [doc_b], chunk_id = 0, token_count = 129\<rparr>) > 100"
proof -
  have h: "\<lparr>files = [doc_b], chunk_id = 0, token_count = 129\<rparr>
             \<in> set (create_chunks length 100 [doc_b])"
    by code_simp
  have n: "\<not> int (length (to_text (files \<lparr>files = [doc_b], chunk_id = 0, token_count = 129\<rparr>))) \<le> 100"
    by (simp add: example_costs)
  show ?thesis
    using create_chunks_budget [OF h] h n by blast
qed

text \<open>
  Claim C3 (overflow step). The claim lets the document \<open>d\<close> that overflows a non-empty
  pending list stay pending unless \<open>d\<close> alone is above budget. The second \<^verbatim>\<open>if\<close> of the
  loop tests \<^verbatim>\<open>test_tokens\<close>, the count of pending plus \<open>d\<close>, so after every overflow it seals
  \<open>d\<close> alone. With budget 300 and the character count as tokenizer: \<open>doc_a\<close> (229) is
  pending, \<open>doc_b\<close> overflows (359), \<open>doc_b\<close> alone costs 129 and \<open>doc_b\<close> with \<open>doc_c\<close>
  costs 259, both within budget; the code still returns three chunks, the second with
  the recorded count 359.
\<close>

theorem create_chunks_overflow_seals_small_document:
  "create_chunks length 300 [doc_a, doc_b, doc_c] =
     [\<lparr>files = [doc_a], chunk_id = 0, token_count = 229\<rparr>,
      \<lparr>files = [doc_b], chunk_id = 1, token_count = 359\<rparr>,
      \<lparr>files = [doc_c], chunk_id = 2, token_count = 129\<rparr>]
   \<and> int (length (to_text [doc_b])) \<le> 300
   \<and> int (length (to_text [doc_b, doc_c])) \<le> 300"
  by code_simp

text \<open>The same for every input: an overflow on a non-empty pending list seals the pending
  list and the new document alone, and leaves nothing pending.\<close>

lemma chunk_step_overflow:
  assumes "st_current_chunk_files s \<noteq> []"
    and "int (ct (to_text (st_current_chunk_files s @ [f]))) > mt"
  shows "st_current_chunk_files (chunk_step ct mt s f) = []"
    and "st_chunks (chunk_step ct mt s f) =
           st_chunks s @
             [\<lparr>files = st_current_chunk_files s, chunk_id = st_chunk_id s,
               token_count = st_current_tokens s\<rparr>,
              \<lparr>files = [f], chunk_id = st_chunk_id s + 1,
               token_count = ct (to_text (st_current_chunk_files s @ [f]))\<rparr>]"
  using assms by (simp_all add: chunk_step_cases Let_def)

text \<open>
  Claim C8 (budget tie-break). The claim treats a document as oversized only if its own
  serialized count is strictly above the budget. With budget 129 and the character
  count as tokenizer, \<open>doc_b\<close> (129) is pending when \<open>doc_c\<close> arrives; \<open>doc_c\<close> alone costs
  129, exactly the budget, yet the code seals it on the single-file path, with the
  recorded count 259 of both documents. The second \<^verbatim>\<open>if\<close> tests the count of the pending
  files with the document, the slip of claim C3.
\<close>

theorem create_chunks_tie_sealed_as_single:
  "create_chunks length 129 [doc_b, doc_c] =
     [\<lparr>files = [doc_b], chunk_id = 0, token_count = 129\<rparr>,
      \<lparr>files = [doc_c], chunk_id = 1, token_count = 259\<rparr>]
   \<and> int (length (to_text [doc_c])) = 129
   \<and> st_current_chunk_files
         (chunk_step length 129
            (init_state\<lparr>st_current_chunk_files := [doc_b], st_current_tokens := 129\<rparr>) doc_c)
       = []"
  by code_simp

text \<open>
  What holds of the tie-break: when the pending list is empty, a document whose own
  serialized count equals the budget is accepted as the pending list, no chunk is
  sealed, and the single-file path is taken exactly when the count is strictly above
  the budget. In any state, a step seals nothing unless the count it measured (of the
  pending files with the document) is strictly above the budget.
\<close>

lemma chunk_step_empty_pending:
  assumes "st_current_chunk_files s = []"
  shows "(int (count_tokens (to_text [file])) = max_tokens \<longrightarrow>
            chunk_step count_tokens max_tokens s file =
              s\<lparr>st_current_chunk_files := [file],
                st_current_tokens := count_tokens (to_text [file])\<rparr>)
       \<and> chunk_step count_tokens max_tokens s file =
           (if int (count_tokens (to_text [file])) > max_tokens then
              s\<lparr>st_chunks := st_chunks s @
                   [\<lparr>files = [file], chunk_id = st_chunk_id s,
                     token_count = count_tokens (to_text [file])\<rparr>],
                st_chunk_id := st_chunk_id s + 1,
                st_current_chunk_files := [],
                st_current_tokens := 0\<rparr>
            else
              s\<lparr>st_current_chunk_files := [file],
                st_current_tokens := count_tokens (to_text [file])\<rparr>)
       \<and> (\<forall>s'. int (count_tokens (to_text (st_current_chunk_files s' @ [file]))) \<le> max_tokens
               \<longrightarrow> st_chunks (chunk_step count_tokens max_tokens s' file) = st_chunks s')"
  using assms by (simp add: chunk_step_cases Let_def)

lemma chunk_step_empty_pending_example:
  "st_current_chunk_files init_state = []
   \<and> int (length (to_text [doc_b])) = 129
   \<and> chunk_step length 129 init_state doc_b =
        init_state\<lparr>st_current_chunk_files := [doc_b], st_current_tokens := 129\<rparr>
   \<and> chunk_step length 128 init_state doc_b =
        init_state\<lparr>st_chunks := [\<lparr>files = [doc_b], chunk_id = 0, token_count = 129\<rparr>],
                   st_chunk_id := 1, st_current_chunk_files := [], st_current_tokens := 0\<rparr>"
proof -
  have h: "st_current_chunk_files init_state = []" by (simp add: init_state_def)
  have c: "int (length (to_text [doc_b])) = 129" by (simp add: example_costs)
  have a: "chunk_step length 129 init_state doc_b =
        init_state\<lparr>st_current_chunk_files := [doc_b], st_current_tokens := 129\<rparr>"
    using chunk_step_empty_pending [OF h, of length doc_b 129] c
    by (simp add: example_costs)
  have b: "chunk_step length 128 init_state doc_b =
        init_state\<lparr>st_chunks := [\<lparr>files = [doc_b], chunk_id = 0, token_count = 129\<rparr>],
                   st_chunk_id := 1, st_current_chunk_files := [], st_current_tokens := 0\<rparr>"
    using chunk_step_empty_pending [OF h, of length doc_b 128]
    by (simp add: example_costs init_state_def)
  show ?thesis using h c a b by blast
qed

section \<open>Properties of create\_project\_overview\_chunk\<close>

lemma overview_files_by_ext:
  "files_by_ext (foldl overview_step s fs) =
     foldl (\<lambda>d ep. dict_append (ext_or_default (fst ep)) (snd ep) d) (files_by_ext s)
       (map (\<lambda>f. (extension f, relative_path f)) fs)"
  by (induction fs arbitrary: s) (simp_all add: overview_step_def Let_def)

lemma overview_readme_content:
  "readme_content (foldl overview_step s fs) =
     (if filter is_readme fs = [] then readme_content s
      else Some (content (last (filter is_readme fs))))"
  by (induction fs arbitrary: s) (simp_all add: overview_step_def Let_def)

lemma overview_decomposed:
  "create_project_overview_chunk fs =
     join [CHR 10]
       (structure_parts (map (\<lambda>f. (extension f, relative_path f)) fs)
        @ readme_parts (if filter is_readme fs = [] then None
                        else Some (content (last (filter is_readme fs)))))"
  by (simp add: create_project_overview_chunk_def Let_def overview_files_by_ext
      overview_readme_content structure_parts_def group_files_def)

text \<open>
  Claim C10 (readme selection). When two or more input documents have a relative path
  containing "readme" (case-insensitive), the overview text is the structure listing,
  which is computed from extensions and paths only, followed by the README section of
  the last such document in input order. No content of any other document enters it.
\<close>

theorem overview_uses_last_readme:
  assumes "2 \<le> length (filter is_readme code_files)"
  shows "create_project_overview_chunk code_files =
     join [CHR 10]
       (structure_parts (map (\<lambda>f. (extension f, relative_path f)) code_files)
        @ readme_parts (Some (content (last (filter is_readme code_files)))))"
proof -
  have "filter is_readme code_files \<noteq> []" using assms by auto
  then show ?thesis by (simp add: overview_decomposed)
qed

theorem overview_uses_last_readme_witness:
  "2 \<le> length (filter is_readme [doc_readme1, doc_a, doc_readme2])
   \<and> create_project_overview_chunk [doc_readme1, doc_a, doc_readme2] =
       join [CHR 10]
         (structure_parts [(''.md'', ''README.md''), ('''', ''a''), (''.txt'', ''docs/Readme.txt'')]
          @ [[CHR 10, CHR 10] @ ''=== README CONTENT ==='' @ [CHR 10], ''second''])"
proof -
  have h: "2 \<le> length (filter is_readme [doc_readme1, doc_a, doc_readme2])"
    by code_simp
  have l: "content (last (filter is_readme [doc_readme1, doc_a, doc_readme2])) = ''second''"
    by code_simp
  have m: "map (\<lambda>f. (extension f, relative_path f)) [doc_readme1, doc_a, doc_readme2]
            = [(''.md'', ''README.md''), ('''', ''a''), (''.txt'', ''docs/Readme.txt'')]"
    by (simp add: doc_readme1_def doc_a_def doc_readme2_def)
  have r: "readme_parts (Some ''second'')
            = [[CHR 10, CHR 10] @ ''=== README CONTENT ==='' @ [CHR 10], ''second'']"
    by (simp add: readme_parts_def)
  show ?thesis
    using overview_uses_last_readme [OF h] h unfolding l m r by blast
qed

section \<open>Properties of analyze\_complexity and \_format\_complexity\_analysis\<close>

lemma foldl_max_eq:
  "foldl (\<lambda>m item. max m (cc_complexity item)) a items = Max (set (a # map cc_complexity items))"
proof (induction items arbitrary: a)
  case Nil
  then show ?case by simp
next
  case (Cons x xs)
  have fin: "finite (cc_complexity ` set xs)" by simp
  have "Max (insert (max a (cc_complexity x)) (cc_complexity ` set xs))
        = Max (insert a (insert (cc_complexity x) (cc_complexity ` set xs)))"
  proof (cases "set xs = {}")
    case True
    then show ?thesis by simp
  next
    case False
    then have ne: "cc_complexity ` set xs \<noteq> {}" by simp
    show ?thesis
      using fin ne by (simp add: max.assoc)
  qed
  with Cons show ?case by simp
qed

lemma step_skip:
  "\<not> (extension f \<in> set [''.py'', ''.java''] \<and> cc (content f) \<noteq> None) \<Longrightarrow>
   complexity_step cc s f = s"
  by (auto simp add: complexity_step_def split: option.splits)

lemma step_scored:
  assumes "extension f \<in> set [''.py'', ''.java'']" and "cc (content f) = Some items"
  shows "cs_files (complexity_step cc s f) = cs_files s @ [file_complexity_of f items]"
    and "cs_high_complexity_files (complexity_step cc s f) =
           cs_high_complexity_files s @
             (if max_score cc f > 10
              then [\<lparr>he_path = relative_path f, he_max_complexity = max_score cc f\<rparr>] else [])"
    and "cs_total_complexity (complexity_step cc s f) = cs_total_complexity s + max_score cc f"
    and "cs_analyzed_count (complexity_step cc s f) = cs_analyzed_count s + 1"
  using assms
  by (simp_all add: complexity_step_def max_score_def file_complexity_of_def foldl_max_eq Let_def)

lemma fc_of_fields:
  "cc (content f) = Some items \<Longrightarrow> fc_path (file_complexity_of f items) = relative_path f"
  "cc (content f) = Some items \<Longrightarrow> fc_max_complexity (file_complexity_of f items) = max_score cc f"
  by (simp_all add: max_score_def file_complexity_of_def foldl_max_eq Let_def)

lemma scored_files_snoc:
  "scored_files cc (fs @ [f]) =
     scored_files cc fs @
       (if extension f \<in> set [''.py'', ''.java''] \<and> cc (content f) \<noteq> None then [f] else [])"
  by (simp add: scored_files_def)

lemma cstate_foldl: "cstate_ok cc fs (foldl (complexity_step cc) complexity_init fs)"
proof (induction fs rule: rev_induct)
  case Nil
  show ?case by (simp add: cstate_ok_def scored_files_def complexity_init_def)
next
  case (snoc f fs)
  let ?s = "foldl (complexity_step cc) complexity_init fs"
  show ?case
  proof (cases "extension f \<in> set [''.py'', ''.java''] \<and> cc (content f) \<noteq> None")
    case False
    then have "complexity_step cc ?s f = ?s" by (rule step_skip)
    moreover have "scored_files cc (fs @ [f]) = scored_files cc fs"
      using False by (auto simp add: scored_files_snoc)
    ultimately show ?thesis using snoc by (simp add: cstate_ok_def)
  next
    case True
    then obtain items where e: "extension f \<in> set [''.py'', ''.java'']"
      and c: "cc (content f) = Some items" by auto
    have sc: "scored_files cc (fs @ [f]) = scored_files cc fs @ [f]"
      using True by (auto simp add: scored_files_snoc)
    note st = step_scored [where cc = cc and f = f and s = "?s", OF e c]
      and fc = fc_of_fields [where cc = cc and f = f, OF c]
    show ?thesis
      using snoc unfolding cstate_ok_def foldl_append foldl_Cons foldl_Nil sc
      by (simp add: st fc)
  qed
qed

lemma length_filter_via_map:
  assumes "map g xs = map h ys"
  shows "length (filter (\<lambda>x. P (g x)) xs) = length (filter (\<lambda>y. P (h y)) ys)"
proof -
  have "length (filter (\<lambda>x. P (g x)) xs) = length (filter P (map g xs))"
    by (simp add: filter_map comp_def)
  also have "\<dots> = length (filter P (map h ys))" using assms by simp
  also have "\<dots> = length (filter (\<lambda>y. P (h y)) ys)"
    by (simp add: filter_map comp_def)
  finally show ?thesis .
qed

lemma analyze_complexity_files_max:
  "map fc_max_complexity (cr_files (analyze_complexity cc td rd fs))
     = map (max_score cc) (scored_files cc fs)"
  using cstate_foldl [of cc fs] by (simp add: analyze_complexity_def Let_def cstate_ok_def)

lemma analyze_complexity_high_length:
  "length (high_complexity_files (cr_summary (analyze_complexity cc td rd fs)))
     = length (filter (\<lambda>f. max_score cc f > 10) (scored_files cc fs))"
proof -
  let ?s = "foldl (complexity_step cc) complexity_init fs"
  have ok: "cstate_ok cc fs ?s" by (rule cstate_foldl)
  then have m: "map fc_max_complexity (cs_files ?s) = map (max_score cc) (scored_files cc fs)"
    by (simp add: cstate_ok_def)
  have "length (cs_high_complexity_files ?s)
          = length (filter (\<lambda>f. fc_max_complexity f > 10) (cs_files ?s))"
    using ok by (simp add: cstate_ok_def)
  also have "\<dots> = length (filter (\<lambda>f. max_score cc f > 10) (scored_files cc fs))"
    using length_filter_via_map [OF m, of "\<lambda>v. v > 10"] .
  finally show ?thesis by (simp add: analyze_complexity_def Let_def)
qed

lemma detailed_metrics_length:
  "length (rep_detailed_metrics
             (the_report (format_complexity_analysis (Some (analyze_complexity cc td rd fs)))))
     = min (length (filter (\<lambda>f. max_score cc f > 5) (scored_files cc fs))) 20"
proof -
  let ?cd = "analyze_complexity cc td rd fs"
  have m: "map fc_max_complexity (cr_files ?cd) = map (max_score cc) (scored_files cc fs)"
    by (rule analyze_complexity_files_max)
  have "length (rep_detailed_metrics (the_report (format_complexity_analysis (Some ?cd))))
          = min (length (filter (\<lambda>f. fc_max_complexity f > 5) (cr_files ?cd))) 20"
    by (simp add: format_complexity_analysis_def Let_def)
  also have "length (filter (\<lambda>f. fc_max_complexity f > 5) (cr_files ?cd))
               = length (filter (\<lambda>f. max_score cc f > 5) (scored_files cc fs))"
    using length_filter_via_map [OF m, of "\<lambda>v. v > 5"] .
  finally show ?thesis .
qed

lemma report_high_files:
  "rep_high_complexity_files
     (the_report (format_complexity_analysis (Some cd)))
     = high_complexity_files (cr_summary cd)"
  by (simp add: format_complexity_analysis_def Let_def)

lemma py_file_fields:
  "extension (py_file i) = ''.py''" "content (py_file i) = ''def f(): ...''"
  by (simp_all add: py_file_def)

lemma scored_py_files: "scored_files cc_eleven (map py_file xs) = map py_file xs"
  by (induction xs) (simp_all add: scored_files_def py_file_fields cc_eleven_def)

lemma max_score_py_file: "max_score cc_eleven (py_file i) = 11"
  by (simp add: max_score_def cc_eleven_def)

lemma high_files_21:
  "length (filter (\<lambda>f. max_score cc_eleven f > 10) (scored_files cc_eleven (map py_file [0..<21])))
     = 21"
  by (simp add: scored_py_files filter_map comp_def max_score_py_file)

text \<open>
  Claim C9 (average complexity). The reported \<open>average_complexity\<close> is 0 when no file was
  scored; otherwise it is the sum of the per-file maximum scores of the scored files,
  divided by their number and rounded to 2 places. Division and rounding are Python's
  float operations, taken as parameters.
\<close>

theorem average_complexity_value:
  "average_complexity (cr_summary (analyze_complexity cc_visit truediv round_nd code_files)) =
     (if scored_files cc_visit code_files = [] then PyInt 0
      else PyFloat
             (round_nd
                (truediv (sum_list (map (max_score cc_visit) (scored_files cc_visit code_files)))
                         (int (length (scored_files cc_visit code_files))))
                2))"
  using cstate_foldl [of cc_visit code_files]
  by (simp add: analyze_complexity_def Let_def cstate_ok_def)

theorem average_complexity_value_witness:
  "average_complexity
     (cr_summary (analyze_complexity cc_eleven frac_div frac_round [py_file 2, doc_a, py_file 3]))
     = PyFloat (22, 2)
   \<and> average_complexity (cr_summary (analyze_complexity cc_eleven frac_div frac_round [doc_a]))
     = PyInt 0"
proof -
  have s1: "scored_files cc_eleven [py_file 2, doc_a, py_file 3] = [py_file 2, py_file 3]"
    by (simp add: scored_files_def py_file_fields doc_a_def cc_eleven_def)
  have s2: "scored_files cc_eleven [doc_a] = []"
    by (simp add: scored_files_def doc_a_def)
  show ?thesis
    using average_complexity_value [of cc_eleven frac_div frac_round "[py_file 2, doc_a, py_file 3]"]
      average_complexity_value [of cc_eleven frac_div frac_round "[doc_a]"]
    by (simp add: s1 s2 max_score_py_file frac_div_def frac_round_def)
qed

section \<open>Properties of analyze\_code\_chunk, the chunk loop and \_format\_detailed\_analysis\<close>

lemma py_bind_simps [simp]:
  "py_bind (Inl e) f = Inl e" "py_bind (Inr x) f = f x"
  by (simp_all add: py_bind_def)

lemma map_err_skip:
  assumes "f x = Inr ([], [])"
  shows "py_bind (map_err f (xs @ x # ys)) (\<lambda>rs. Inr (concat (map fst rs), concat (map snd rs)))
       = py_bind (map_err f (xs @ ys)) (\<lambda>rs. Inr (concat (map fst rs), concat (map snd rs)))"
proof (induction xs)
  case Nil
  show ?case using assms by (cases "map_err f ys") simp_all
next
  case (Cons a xs)
  show ?case
  proof (cases "f a")
    case (Inl e)
    then show ?thesis by simp
  next
    case (Inr r)
    show ?thesis
    proof (cases "map_err f (xs @ x # ys)")
      case (Inl e)
      with Cons.IH have "\<exists>e'. map_err f (xs @ ys) = Inl e'"
        by (cases "map_err f (xs @ ys)") simp_all
      then show ?thesis using Inl Inr Cons.IH by (cases "map_err f (xs @ ys)") simp_all
    next
      case r1: (Inr rs1)
      with Cons.IH obtain rs2 where r2: "map_err f (xs @ ys) = Inr rs2"
        by (cases "map_err f (xs @ ys)") simp_all
      from Cons.IH r1 r2 show ?thesis using Inr by simp
    qed
  qed
qed

lemma format_chunk_fallback: "format_chunk (raw_fallback i r m) = Inr ([], [])"
  by (simp add: format_chunk_def raw_fallback_def)

lemma collect_detailed_skip:
  "collect_detailed (earlier @ raw_fallback i r m # later) = collect_detailed (earlier @ later)"
  unfolding collect_detailed_def by (rule map_err_skip) (rule format_chunk_fallback)

lemma analyze_code_chunk_parse_failure:
  assumes "invoke system_prompt (user_prompt chunk_text chunk_idx total_chunks) w = (Inr response, w')"
    and "json_loads (extract_json_text response) = Inl (JSONDecodeError msg)"
  shows "analyze_code_chunk invoke json_loads chunk_text chunk_idx total_chunks w
           = (Inr (raw_fallback chunk_idx (extract_json_text response) msg), w')"
  using assms by (simp add: analyze_code_chunk_def Let_def)

lemma startswith_append: "startswith s (p @ q) \<Longrightarrow> startswith s p"
  by (induction s p rule: startswith.induct) simp_all

lemma str_contains_append: "str_contains (p @ q) s \<Longrightarrow> str_contains p s"
proof (induction s)
  case Nil
  then show ?case by simp
next
  case (Cons x xs)
  then show ?case using startswith_append [of "x # xs" p q] by auto
qed

lemma extract_no_fence:
  assumes "\<not> str_contains ''```'' response"
  shows "extract_json_text response = response"
proof -
  have "\<not> str_contains (''```'' @ ''json'') response"
    using assms str_contains_append by blast
  then show ?thesis using assms by (simp add: extract_json_text_def)
qed

lemma fenced_response_text: "extract_json_text fenced_response = ''not json''"
  by code_simp

lemma three_classes_report: "format_detailed_analysis [three_classes]
   = Inr \<lparr>total_classes_identified = 3, total_key_functions_identified = 0,
          classes = [class_entry ''A'', class_entry ''B'', class_entry ''C''],
          key_functions = []\<rparr>"
  by code_simp

lemma snd_analyze_chunks_from_Cons:
  assumes "analyze_code_chunk ivk jl (to_text (files c)) k n w = (Inr a, w1)"
  shows "snd (analyze_chunks_from ivk jl k n (c # xs) w)
           = snd (analyze_chunks_from ivk jl (k + 1) n xs w1)"
  using assms by (simp split: prod.splits sum.splits)

lemma analyze_chunks_from_aligned:
  "analyze_chunks_from ivk jl k n cs w = (Inr res, w') \<Longrightarrow>
   length res = length cs \<and>
   (\<forall>i < length cs.
      analyze_code_chunk ivk jl (to_text (files (cs ! i))) (k + i) n
        (snd (analyze_chunks_from ivk jl k n (take i cs) w))
      = (Inr (res ! i), snd (analyze_chunks_from ivk jl k n (take (Suc i) cs) w)))"
proof (induction cs arbitrary: k w res)
  case Nil
  then show ?case by simp
next
  case (Cons c cs)
  from Cons.prems obtain a w1 where
    first: "analyze_code_chunk ivk jl (to_text (files c)) k n w = (Inr a, w1)"
    by (auto split: prod.splits sum.splits)
  with Cons.prems obtain rest where
    rec: "analyze_chunks_from ivk jl (k + 1) n cs w1 = (Inr rest, w')" and res: "res = a # rest"
    by (auto split: prod.splits sum.splits)
  note IH = Cons.IH [OF rec]
  have len: "length res = length (c # cs)" using IH res by simp
  have "analyze_code_chunk ivk jl (to_text (files ((c # cs) ! i))) (k + i) n
          (snd (analyze_chunks_from ivk jl k n (take i (c # cs)) w))
        = (Inr (res ! i), snd (analyze_chunks_from ivk jl k n (take (Suc i) (c # cs)) w))"
    if "i < length (c # cs)" for i
  proof (cases i)
    case 0
    then show ?thesis using first res by simp
  next
    case (Suc j)
    then have j: "j < length cs" using that by simp
    from IH j have
      "analyze_code_chunk ivk jl (to_text (files (cs ! j))) (k + 1 + j) n
         (snd (analyze_chunks_from ivk jl (k + 1) n (take j cs) w1))
       = (Inr (rest ! j), snd (analyze_chunks_from ivk jl (k + 1) n (take (Suc j) cs) w1))"
      by blast
    moreover have "snd (analyze_chunks_from ivk jl k n (take i (c # cs)) w)
                     = snd (analyze_chunks_from ivk jl (k + 1) n (take j cs) w1)"
      using Suc snd_analyze_chunks_from_Cons [OF first, of "take j cs"]
      by (simp del: analyze_chunks_from.simps)
    moreover have "snd (analyze_chunks_from ivk jl k n (take (Suc i) (c # cs)) w)
                     = snd (analyze_chunks_from ivk jl (k + 1) n (take (Suc j) cs) w1)"
      using Suc snd_analyze_chunks_from_Cons [OF first, of "take (Suc j) cs"]
      by (simp del: analyze_chunks_from.simps)
    ultimately show ?thesis
      using Suc res by (simp del: analyze_chunks_from.simps)
  qed
  with len show ?case by blast
qed

text \<open>An exception of the parser other than \<open>JSONDecodeError\<close> leaves the function.\<close>

lemma analyze_code_chunk_other_exception:
  assumes "invoke system_prompt (user_prompt chunk_text chunk_idx total_chunks) w = (Inr response, w')"
    and "json_loads (extract_json_text response) = Inl e"
    and "\<forall>msg. e \<noteq> JSONDecodeError msg"
  shows "analyze_code_chunk invoke json_loads chunk_text chunk_idx total_chunks w = (Inl e, w')"
  using assms by (cases e) (simp_all add: analyze_code_chunk_def Let_def)

lemma analyze_code_chunk_returns:
  assumes "\<forall>sp up v. \<exists>r v'. invoke sp up v = (Inr r, v')"
    and "\<forall>s. (\<exists>v. jl s = Inr v) \<or> (\<exists>msg. jl s = Inl (JSONDecodeError msg))"
  shows "\<exists>a w'. analyze_code_chunk invoke jl txt k n w = (Inr a, w')"
proof -
  from assms(1) obtain r v' where i: "invoke system_prompt (user_prompt txt k n) w = (Inr r, v')"
    by blast
  from assms(2) consider v where "jl (extract_json_text r) = Inr v"
    | msg where "jl (extract_json_text r) = Inl (JSONDecodeError msg)"
    by blast
  then show ?thesis
    using i by cases (simp_all add: analyze_code_chunk_def Let_def)
qed

lemma analyze_chunks_from_returns:
  assumes "\<forall>sp up v. \<exists>r v'. invoke sp up v = (Inr r, v')"
    and "\<forall>s. (\<exists>v. jl s = Inr v) \<or> (\<exists>msg. jl s = Inl (JSONDecodeError msg))"
  shows "\<exists>res w'. analyze_chunks_from invoke jl k n cs w = (Inr res, w')"
proof (induction cs arbitrary: k w)
  case Nil
  show ?case by simp
next
  case (Cons c cs)
  from analyze_code_chunk_returns [of invoke jl, OF assms] obtain a w1 where
    first: "analyze_code_chunk invoke jl (to_text (files c)) k n w = (Inr a, w1)" by blast
  from Cons.IH obtain rest w2 where
    rec: "analyze_chunks_from invoke jl (k + 1) n cs w1 = (Inr rest, w2)" by blast
  show ?case using first rec by simp
qed

lemma many_functions_collected:
  "collect_detailed [many_functions] = Inr ([], replicate 51 function_entry_f)"
  by code_simp

lemma two_chunks_run:
  "analyze_chunks (invoke_const ''{}'') json_loads_stub two_chunks 0
     = (Inr [JDict [], JDict []], 2)"
  by code_simp

lemma two_chunks_states:
  "snd (analyze_chunks_from (invoke_const ''{}'') json_loads_stub 0 2 (take 1 two_chunks) 0) = 1"
  "snd (analyze_chunks_from (invoke_const ''{}'') json_loads_stub 0 2 (take 2 two_chunks) 0) = 2"
  by code_simp+

text \<open>\<open>py_find\<close> returns the first position from \<open>start\<close> on at which \<open>sub\<close> occurs, and
  -1 exactly if there is none.\<close>

lemma find_at_none: "find_at xs sub k = - 1 \<longleftrightarrow> \<not> str_contains sub xs"
  by (induction xs arbitrary: k) auto

lemma find_at_first:
  "str_contains sub xs \<Longrightarrow>
   \<exists>j \<le> length xs. find_at xs sub k = int (k + j) \<and> startswith (drop j xs) sub
      \<and> (\<forall>j' < j. \<not> startswith (drop j' xs) sub)"
proof (induction xs arbitrary: k)
  case Nil
  then show ?case by simp
next
  case (Cons x xs)
  show ?case
  proof (cases "startswith (x # xs) sub")
    case True
    then show ?thesis by (intro exI [of _ 0]) simp
  next
    case False
    with Cons.prems have "str_contains sub xs" by simp
    from Cons.IH [OF this, of "k + 1"] obtain j where
      j: "j \<le> length xs" "find_at xs sub (k + 1) = int (k + 1 + j)"
         "startswith (drop j xs) sub" "\<forall>j' < j. \<not> startswith (drop j' xs) sub"
      by blast
    have "\<forall>j' < Suc j. \<not> startswith (drop j' (x # xs)) sub"
    proof (intro allI impI)
      fix j' assume "j' < Suc j"
      then show "\<not> startswith (drop j' (x # xs)) sub"
        using False j(4) by (cases j') simp_all
    qed
    with j False show ?thesis by (intro exI [of _ "Suc j"]) simp
  qed
qed

lemma py_find_first:
  assumes "start \<le> length s" and "str_contains sub (drop start s)"
  shows "\<exists>i. py_find s sub start = int i \<and> start \<le> i \<and> i \<le> length s
           \<and> startswith (drop i s) sub
           \<and> (\<forall>j. start \<le> j \<and> j < i \<longrightarrow> \<not> startswith (drop j s) sub)"
proof -
  from find_at_first [OF assms(2), of start] obtain j where
    j: "j \<le> length (drop start s)" "find_at (drop start s) sub start = int (start + j)"
       "startswith (drop j (drop start s)) sub"
       "\<forall>j' < j. \<not> startswith (drop j' (drop start s)) sub"
    by blast
  have "\<not> startswith (drop i s) sub" if "start \<le> i" "i < start + j" for i
  proof -
    from that have "i - start < j" by simp
    with j(4) have "\<not> startswith (drop (i - start) (drop start s)) sub" by blast
    then show ?thesis using that by simp
  qed
  with j assms(1) show ?thesis
    by (intro exI [of _ "start + j"]) (simp add: py_find_def add.commute)
qed

lemma py_find_none:
  "py_find s sub start = - 1 \<longleftrightarrow> (start > length s \<or> \<not> str_contains sub (drop start s))"
  by (simp add: py_find_def find_at_none)

lemma two_block_text: "extract_json_text two_block_response = ''{}''"
  by code_simp

lemma unclosed_text: "extract_json_text unclosed_response = ''{''"
  by code_simp

lemma py_setitem_dict: "py_setitem v k x = Inr r \<Longrightarrow> \<exists>kvs. r = JDict kvs"
  by (cases v) auto

lemma generate_project_overview_dict:
  assumes "generate_project_overview invoke json_loads text ri w = (Inr po, w1)"
  shows "\<exists>kvs. po = JDict kvs"
proof -
  from assms obtain response w' where
    i: "invoke overview_system_prompt (overview_user_prompt text ri) w = (Inr response, w')"
    by (auto simp add: generate_project_overview_def split: prod.splits sum.splits)
  show ?thesis
  proof (cases "json_loads (extract_json_text response)")
    case (Inr v)
    with assms i have "py_setitem v ''repository_info'' (repo_info_json ri) = Inr po"
      by (simp add: generate_project_overview_def Let_def)
    then show ?thesis by (rule py_setitem_dict)
  next
    case (Inl e)
    with assms i show ?thesis
      by (cases e) (auto simp add: generate_project_overview_def Let_def overview_fallback_def)
  qed
qed

lemma py_get_dict: "\<exists>x. py_get (JDict kvs) k d = Inr x"
  by (cases "map_of kvs k") simp_all

lemma format_results_returns:
  assumes "ar_project_overview ar = JDict kvs"
    and "format_detailed_analysis (ar_chunk_analyses ar) = Inr d"
  shows "\<exists>formatted. format_results now provider ar = Inr formatted
           \<and> fr_detailed_analysis formatted = d"
proof -
  obtain a1 where a1: "py_get (JDict kvs) ''repository_info'' (JDict []) = Inr a1"
    using py_get_dict by blast
  obtain a2 where a2: "py_get (JDict kvs) ''project_name'' (JStr ''Unknown'') = Inr a2"
    using py_get_dict by blast
  obtain a3 where a3: "py_get (JDict kvs) ''purpose'' (JStr '''') = Inr a3"
    using py_get_dict by blast
  obtain a4 where a4: "py_get (JDict kvs) ''domain'' (JStr '''') = Inr a4"
    using py_get_dict by blast
  obtain a5 where a5: "py_get (JDict kvs) ''architecture_style'' (JStr '''') = Inr a5"
    using py_get_dict by blast
  obtain a6 where a6: "py_get (JDict kvs) ''key_technologies'' (JList []) = Inr a6"
    using py_get_dict by blast
  obtain a7 where a7: "py_get (JDict kvs) ''main_components'' (JList []) = Inr a7"
    using py_get_dict by blast
  obtain a8 where a8: "py_get (JDict kvs) ''estimated_complexity'' (JStr '''') = Inr a8"
    using py_get_dict by blast
  obtain a9 where a9: "py_get (JDict kvs) ''notable_features'' (JList []) = Inr a9"
    using py_get_dict by blast
  show ?thesis
    unfolding format_results_def Let_def assms a1 a2 a3 a4 a5 a6 a7 a8 a9 py_bind_simps
    by simp
qed

text \<open>The run ends with status 0 when the repository was read with at least one file, the
  overview call and the chunk loop return, the formatter accepts the chunk results and
  both report files are written.\<close>

lemma main_succeeds:
  assumes "repository = Inr (ri, fs)" and "fs \<noteq> []"
    and "generate_project_overview invoke jl (create_project_overview_chunk fs) ri w = (Inr po, w1)"
    and "analyze_chunks invoke jl (create_chunks ct mt fs) w1 = (Inr cas, w2)"
    and "format_detailed_analysis cas = Inr d"
    and "\<forall>formatted. \<exists>p. save_results formatted = Inr p"
    and "\<forall>formatted. \<exists>p. save_summary formatted = Inr p"
  shows "main repository invoke jl ct mt cc td rd fi now provider save_results save_summary w = 0"
proof -
  let ?ar = "\<lparr>ar_project_overview = po, ar_chunk_analyses = cas,
              ar_complexity_analysis = analyze_complexity cc td rd fs,
              ar_method_signatures = extract_method_signatures fi fs,
              ar_statistics =
                \<lparr>stat_total_files = length fs,
                 stat_total_chunks = length (create_chunks ct mt fs),
                 stat_total_lines =
                   sum_list (map (\<lambda>f. length (split_chr (CHR 10) (content f))) fs),
                 stat_total_size_bytes = sum_list (map file_size fs),
                 stat_files_by_extension = count_files_by_extension fs\<rparr>\<rparr>"
  have a: "analyze_with_llm invoke jl ct mt cc td rd fi fs ri w = (Inr ?ar, w2)"
    using assms(3,4) by (simp add: analyze_with_llm_def Let_def)
  from generate_project_overview_dict [OF assms(3)] obtain kvs where po: "po = JDict kvs"
    by blast
  have "\<exists>formatted. format_results now provider ?ar = Inr formatted
          \<and> fr_detailed_analysis formatted = d"
    by (rule format_results_returns [where kvs = kvs]) (simp_all add: po assms(5))
  then obtain formatted where f: "format_results now provider ?ar = Inr formatted" by blast
  from assms(6) obtain p1 where s1: "save_results formatted = Inr p1" by blast
  from assms(7) obtain p2 where s2: "save_summary formatted = Inr p2" by blast
  show ?thesis
    using assms(1,2) a f s1 s2 by (simp add: main_def)
qed

lemma scenario_overview:
  "generate_project_overview invoke_scenario json_loads_scenario
     (create_project_overview_chunk [doc_a, doc_b]) RepoInfoEmpty 0
   = (Inr (JDict [(''repository_info'', JDict [])]), 1)"
  by code_simp

lemma scenario_chunks:
  "analyze_chunks invoke_scenario json_loads_scenario (create_chunks length 300 [doc_a, doc_b]) 1
   = (Inr [three_classes, raw_fallback 1 ''not json'' ''Expecting value''], 3)"
  by code_simp

lemma scenario_chunk_call:
  "invoke_scenario system_prompt (user_prompt (to_text [doc_b]) 1 2) 2 = (Inr ''not json'', 3)"
  by (simp add: invoke_scenario_def)

lemma scenario_parse:
  "json_loads_scenario (extract_json_text ''not json'') = Inl (JSONDecodeError ''Expecting value'')"
  by code_simp

lemma not_json_text: "extract_json_text ''not json'' = ''not json''"
  by code_simp

lemma stub_rejects: "json_loads_stub ''not json'' = Inl (JSONDecodeError ''Expecting value'')"
  by code_simp

lemma format_complexity_some:
  "format_complexity_analysis (Some cd)
     = ComplexityAnalysis (the_report (format_complexity_analysis (Some cd)))"
  by (simp add: format_complexity_analysis_def Let_def)




text \<open>
  Claim C6 (cap correctness), as stated: the high-complexity file list, of the files
  whose maximum score is above 10, has length min(qualifying files, 20). The formatter
  passes \<^verbatim>\<open>summary["high_complexity_files"]\<close> on unchanged. For 21 Python files with
  maximum score 11 each, the list in the report has 21 entries.
\<close>

theorem high_complexity_files_uncapped_counterexample:
  "length (rep_high_complexity_files
             (the_report (format_complexity_analysis
                (Some (analyze_complexity cc_eleven frac_div frac_round
                         (map py_file [0..<21])))))) = 21
   \<and> map (max_score cc_eleven) (scored_files cc_eleven (map py_file [0..<21]))
       = replicate 21 11
   \<and> min (21::nat) 20 \<noteq> 21"
proof -
  have "map (max_score cc_eleven) (scored_files cc_eleven (map py_file [0..<21]))
          = map (\<lambda>i. 11) [0..<21]"
    by (simp add: scored_py_files max_score_py_file comp_def)
  also have "\<dots> = replicate 21 11"
    by (simp add: map_replicate_const)
  finally show ?thesis
    by (simp add: report_high_files analyze_complexity_high_length high_files_21)
qed

text \<open>
  Claim C6, amended: the merged key-function list is the first 50 of the functions found,
  so its length is min(total functions found, 50). The list capped at 20 files is
  \<open>detailed_metrics\<close>, of the scored files whose maximum score is above 5: its length is
  min(qualifying files, 20). The list \<open>high_complexity_files\<close>, of the scored files whose
  maximum score is above 10, is not capped: it has one entry for every such file.
\<close>

theorem report_caps:
  assumes "collect_detailed chunk_analyses = Inr (all_classes, all_key_functions)"
  shows "format_detailed_analysis chunk_analyses
           = Inr \<lparr>total_classes_identified = length all_classes,
                  total_key_functions_identified = length all_key_functions,
                  classes = all_classes,
                  key_functions = take 50 all_key_functions\<rparr>
       \<and> length (take 50 all_key_functions) = min (length all_key_functions) 50
       \<and> (\<exists>rep. format_complexity_analysis
                   (Some (analyze_complexity cc_visit truediv round_nd code_files))
                 = ComplexityAnalysis rep
               \<and> length (rep_detailed_metrics rep)
                   = min (length (filter (\<lambda>f. max_score cc_visit f > 5)
                                    (scored_files cc_visit code_files))) 20
               \<and> length (rep_high_complexity_files rep)
                   = length (filter (\<lambda>f. max_score cc_visit f > 10)
                               (scored_files cc_visit code_files)))"
proof -
  let ?cd = "analyze_complexity cc_visit truediv round_nd code_files"
  let ?rep = "the_report (format_complexity_analysis (Some ?cd))"
  have a: "format_complexity_analysis (Some ?cd) = ComplexityAnalysis ?rep"
    by (rule format_complexity_some)
  have b: "length (rep_detailed_metrics ?rep)
             = min (length (filter (\<lambda>f. max_score cc_visit f > 5)
                              (scored_files cc_visit code_files))) 20"
    by (rule detailed_metrics_length)
  have c: "length (rep_high_complexity_files ?rep)
             = length (filter (\<lambda>f. max_score cc_visit f > 10)
                         (scored_files cc_visit code_files))"
    by (simp only: report_high_files analyze_complexity_high_length)
  have d: "format_detailed_analysis chunk_analyses
           = Inr \<lparr>total_classes_identified = length all_classes,
                  total_key_functions_identified = length all_key_functions,
                  classes = all_classes,
                  key_functions = take 50 all_key_functions\<rparr>"
    using assms by (simp add: format_detailed_analysis_def)
  have e: "length (take 50 all_key_functions) = min (length all_key_functions) 50"
    by simp
  from a b c d e show ?thesis by blast
qed

theorem report_caps_witness:
  "collect_detailed [many_functions] = Inr ([], replicate 51 function_entry_f)
   \<and> format_detailed_analysis [many_functions]
       = Inr \<lparr>total_classes_identified = 0, total_key_functions_identified = 51,
              classes = [], key_functions = replicate 50 function_entry_f\<rparr>
   \<and> length (replicate 50 function_entry_f) = min 51 50"
proof -
  note r = report_caps [OF many_functions_collected, of cc_eleven frac_div frac_round "[]"]
  show ?thesis
    using r many_functions_collected by simp
qed

text \<open>
  Claim C7 (alignment). Whenever the chunk loop of \<open>analyze_with_llm\<close> returns, it returns
  one result per chunk, and the result at index \<open>i\<close> is what \<open>analyze_code_chunk\<close>
  returned for the text of chunk \<open>i\<close>, called with index \<open>i\<close> in the state the calls for
  the chunks before it left. The loop returns whenever no model call raises and the
  parser raises nothing but \<^verbatim>\<open>JSONDecodeError\<close>.
\<close>

theorem chunk_analyses_aligned:
  "((\<forall>sp up v. \<exists>r v'. invoke sp up v = (Inr r, v'))
     \<and> (\<forall>s. (\<exists>v. json_loads s = Inr v) \<or> (\<exists>msg. json_loads s = Inl (JSONDecodeError msg)))
     \<longrightarrow> (\<exists>res w'. analyze_chunks invoke json_loads chunks w = (Inr res, w')))
   \<and> (\<forall>chunk_analyses w'.
        analyze_chunks invoke json_loads chunks w = (Inr chunk_analyses, w') \<longrightarrow>
        length chunk_analyses = length chunks \<and>
        (\<forall>i < length chunks.
           analyze_code_chunk invoke json_loads (to_text (files (chunks ! i))) i (length chunks)
             (snd (analyze_chunks_from invoke json_loads 0 (length chunks) (take i chunks) w))
           = (Inr (chunk_analyses ! i),
              snd (analyze_chunks_from invoke json_loads 0 (length chunks)
                     (take (Suc i) chunks) w))))"
proof (intro conjI allI impI)
  assume "(\<forall>sp up v. \<exists>r v'. invoke sp up v = (Inr r, v'))
     \<and> (\<forall>s. (\<exists>v. json_loads s = Inr v) \<or> (\<exists>msg. json_loads s = Inl (JSONDecodeError msg)))"
  then show "\<exists>res w'. analyze_chunks invoke json_loads chunks w = (Inr res, w')"
    unfolding analyze_chunks_def
    using analyze_chunks_from_returns [of invoke json_loads] by blast
next
  fix chunk_analyses w'
  assume "analyze_chunks invoke json_loads chunks w = (Inr chunk_analyses, w')"
  then have run: "analyze_chunks_from invoke json_loads 0 (length chunks) chunks w
                    = (Inr chunk_analyses, w')"
    by (simp add: analyze_chunks_def)
  from analyze_chunks_from_aligned [OF run]
  show "length chunk_analyses = length chunks" by blast
next
  fix chunk_analyses w' i
  assume "analyze_chunks invoke json_loads chunks w = (Inr chunk_analyses, w')"
    and i: "i < length chunks"
  then have run: "analyze_chunks_from invoke json_loads 0 (length chunks) chunks w
                    = (Inr chunk_analyses, w')"
    by (simp add: analyze_chunks_def)
  from analyze_chunks_from_aligned [OF run] i
  show "analyze_code_chunk invoke json_loads (to_text (files (chunks ! i))) i (length chunks)
          (snd (analyze_chunks_from invoke json_loads 0 (length chunks) (take i chunks) w))
        = (Inr (chunk_analyses ! i),
           snd (analyze_chunks_from invoke json_loads 0 (length chunks)
                  (take (Suc i) chunks) w))"
    by simp
qed

theorem chunk_analyses_aligned_witness:
  "analyze_chunks (invoke_const ''{}'') json_loads_stub two_chunks 0
     = (Inr [JDict [], JDict []], 2)
   \<and> length [JDict [], JDict [] :: unit json] = length two_chunks
   \<and> analyze_code_chunk (invoke_const ''{}'') json_loads_stub
         (to_text (files (two_chunks ! 1))) 1 2 1
       = (Inr (JDict []), 2)"
proof -
  have len: "length two_chunks = 2" by (simp add: two_chunks_def)
  note r = chunk_analyses_aligned
             [where invoke = "invoke_const ''{}''" and json_loads = json_loads_stub
                and chunks = two_chunks and w = 0,
              THEN conjunct2, rule_format, OF two_chunks_run]
  from r have a: "length [JDict [], JDict [] :: unit json] = length two_chunks" by blast
  from r have "1 < length two_chunks \<longrightarrow>
      analyze_code_chunk (invoke_const ''{}'') json_loads_stub
        (to_text (files (two_chunks ! 1))) 1 (length two_chunks)
        (snd (analyze_chunks_from (invoke_const ''{}'') json_loads_stub 0 (length two_chunks)
                (take 1 two_chunks) 0))
      = (Inr ([JDict [], JDict [] :: unit json] ! 1),
         snd (analyze_chunks_from (invoke_const ''{}'') json_loads_stub 0 (length two_chunks)
                (take (Suc 1) two_chunks) 0))"
    by blast
  then have b: "analyze_code_chunk (invoke_const ''{}'') json_loads_stub
         (to_text (files (two_chunks ! 1))) 1 2 1 = (Inr (JDict []), 2)"
    unfolding len using two_chunks_states by (simp add: numeral_2_eq_2 [symmetric])
  from two_chunks_run a b show ?thesis by blast
qed

end
